theory Spec2Isabelle
  imports Main "HOL-Library.Word"
begin

unbundle bit_operations_syntax

section \<open>QtIOCompressor: a compressing adapter over a sequential byte device\<close>

text \<open>
  The development embeds \<^verbatim>\<open>src/streams/qtiocompressor.cpp\<close>: the private base class
  \<^verbatim>\<open>QtIOCompressorPrivate\<close>, its two backends (\<^verbatim>\<open>QtIOCompressorZlibPrivate\<close> and
  \<^verbatim>\<open>QtIOCompressorZstdPrivate\<close>) and the public class \<^verbatim>\<open>QtIOCompressor\<close>.

  What the file calls but does not contain is a parameter of the model, never a
  definition: the zlib and zstd libraries, the underlying \<^verbatim>\<open>QIODevice\<close>, the two
  preprocessor switches \<^verbatim>\<open>WITH_XC_ZSTD\<close> and \<^verbatim>\<open>QT_NO_DEBUG\<close>, and the contents of
  freshly allocated memory. Every C++ loop is a recursive function with fuel: the
  value \<open>None\<close> means that the loop did not finish within the fuel. A result
  \<open>Inl f\<close> is an abnormal end of the process (a failed \<^verbatim>\<open>Q_ASSERT\<close>, a read outside
  the scratch buffer, a null stream handle), \<open>Inr\<close> is a normal return.
\<close>

subsection \<open>Values\<close>

type_synonym byte = "8 word"

datatype State =
    NotReadFirstByte | InStream | EndOfStream
  | NoBytesWritten | BytesWritten
  | Closed | Error

datatype StreamFormat = ZlibFormat | GzipFormat | RawZipFormat

datatype Backend = ZlibPrivate | ZstdPrivate

datatype ZSTD_EndDirective = ZSTD_e_continue | ZSTD_e_flush | ZSTD_e_end

datatype fault = OutOfBoundsRead | AssertionFailed | NullPointer

text \<open>\<^verbatim>\<open>QIODevice::OpenMode\<close>: a set of flags; \<^verbatim>\<open>mode & flag\<close> is \<open>testFlag\<close>.\<close>

abbreviation (input) NotOpen :: nat where "NotOpen \<equiv> 0"
abbreviation (input) ReadOnly :: nat where "ReadOnly \<equiv> Suc 0"
abbreviation (input) WriteOnly :: nat where "WriteOnly \<equiv> 2"

definition testFlag :: "nat \<Rightarrow> nat \<Rightarrow> bool" where
  "testFlag mode flag \<longleftrightarrow> mode AND flag \<noteq> 0"

text \<open>The status codes and flush modes of \<^verbatim>\<open>zlib.h\<close>.\<close>

abbreviation (input) Z_OK :: int where "Z_OK \<equiv> 0"
abbreviation (input) Z_STREAM_END :: int where "Z_STREAM_END \<equiv> 1"
abbreviation (input) Z_NEED_DICT :: int where "Z_NEED_DICT \<equiv> 2"
abbreviation (input) Z_STREAM_ERROR :: int where "Z_STREAM_ERROR \<equiv> - 2"
abbreviation (input) Z_DATA_ERROR :: int where "Z_DATA_ERROR \<equiv> - 3"
abbreviation (input) Z_MEM_ERROR :: int where "Z_MEM_ERROR \<equiv> - 4"
abbreviation (input) Z_BUF_ERROR :: int where "Z_BUF_ERROR \<equiv> - 5"
abbreviation (input) Z_NO_FLUSH :: int where "Z_NO_FLUSH \<equiv> 0"
abbreviation (input) Z_SYNC_FLUSH :: int where "Z_SYNC_FLUSH \<equiv> 2"
abbreviation (input) Z_FINISH :: int where "Z_FINISH \<equiv> 4"

text \<open>
  \<^verbatim>\<open>uInt\<close> (the type of \<^verbatim>\<open>avail_in\<close> and \<^verbatim>\<open>avail_out\<close>, and \<^verbatim>\<open>ZlibSize\<close>) is an
  unsigned 32-bit integer, \<^verbatim>\<open>size_t\<close> an unsigned 64-bit one: assigning a
  \<^verbatim>\<open>qint64\<close> to them keeps the value modulo the width. \<^verbatim>\<open>int i = avail_in\<close> reads the
  32 bits as a signed number.
\<close>

definition uInt :: "int \<Rightarrow> nat" where
  "uInt i = nat (i mod 2 ^ 32)"

definition size_t :: "int \<Rightarrow> nat" where
  "size_t i = nat (i mod 2 ^ 64)"

definition to_int :: "nat \<Rightarrow> int" where
  "to_int n = (if n mod 2 ^ 32 < 2 ^ 31 then int (n mod 2 ^ 32) else int (n mod 2 ^ 32) - 2 ^ 32)"

text \<open>\<^verbatim>\<open>QString::number\<close>: the decimal digits of an integer.\<close>

fun digits :: "nat \<Rightarrow> string" where
  "digits n =
     (if n < 10 then [''0123456789'' ! n] else digits (n div 10) @ [''0123456789'' ! (n mod 10)])"

declare digits.simps [simp del]

definition number :: "int \<Rightarrow> string" where
  "number i = (if i < 0 then CHR ''-'' # digits (nat (- i)) else digits (nat i))"

subsection \<open>The collaborators: zlib, zstd, the underlying device\<close>

text \<open>
  A codec call sees the bytes at \<^verbatim>\<open>next_in\<close> (\<^verbatim>\<open>avail_in\<close> of them) and the room at
  \<^verbatim>\<open>next_out\<close>; it answers with its status, the number of input bytes it consumed,
  the bytes it produced and its new internal state. \<open>bounded\<close> is the memory
  contract of both libraries: a call consumes no more than it was offered and writes
  no more than the room it was given.
\<close>

record 'c zlib_lib =
  zlibVersion :: string
  inflateInit2 :: "int \<Rightarrow> int \<times> 'c option"
  deflateInit2 :: "int \<Rightarrow> int \<Rightarrow> int \<times> 'c option"
  inflate :: "'c \<Rightarrow> byte list \<Rightarrow> nat \<Rightarrow> int \<Rightarrow> int \<times> nat \<times> byte list \<times> 'c"
  deflate :: "'c \<Rightarrow> byte list \<Rightarrow> nat \<Rightarrow> int \<Rightarrow> int \<times> nat \<times> byte list \<times> 'c"
  zError :: "int \<Rightarrow> string option"

record 'c zstd_lib =
  ZSTD_createDStream :: "'c option"
  ZSTD_initDStream :: "'c \<Rightarrow> nat \<times> 'c"
  ZSTD_DStreamInSize :: nat
  ZSTD_createCStream :: "'c option"
  ZSTD_initCStream :: "'c \<Rightarrow> int \<Rightarrow> nat \<times> 'c"
  ZSTD_CStreamOutSize :: nat
  ZSTD_decompressStream :: "'c \<Rightarrow> byte list \<Rightarrow> nat \<Rightarrow> nat \<times> nat \<times> byte list \<times> 'c"
  ZSTD_compressStream2 ::
    "'c \<Rightarrow> byte list \<Rightarrow> nat \<Rightarrow> ZSTD_EndDirective \<Rightarrow> nat \<times> nat \<times> byte list \<times> 'c"
  ZSTD_isError :: "nat \<Rightarrow> bool"
  ZSTD_getErrorName :: "nat \<Rightarrow> string option"

text \<open>
  The underlying \<^verbatim>\<open>QIODevice\<close>, over any state \<open>'d\<close>. \<open>dev_read n\<close> answers \<open>None\<close>
  for \<^verbatim>\<open>-1\<close> and otherwise the bytes it delivered (at most \<open>n\<close> are kept);
  \<open>dev_write bs\<close> answers \<open>None\<close> for \<^verbatim>\<open>-1\<close> and otherwise how many bytes it took
  (at most \<open>length bs\<close>).
\<close>

record 'd QIODevice =
  dev_isOpen :: "'d \<Rightarrow> bool"
  dev_openMode :: "'d \<Rightarrow> nat"
  dev_open :: "nat \<Rightarrow> 'd \<Rightarrow> bool \<times> 'd"
  dev_close :: "'d \<Rightarrow> 'd"
  dev_read :: "nat \<Rightarrow> 'd \<Rightarrow> byte list option \<times> 'd"
  dev_write :: "byte list \<Rightarrow> 'd \<Rightarrow> nat option \<times> 'd"
  dev_ungetChar :: "byte \<Rightarrow> 'd \<Rightarrow> 'd"
  dev_errorString :: "'d \<Rightarrow> string"

record ('c, 'd) env =
  WITH_XC_ZSTD :: bool
  QT_NO_DEBUG :: bool
  zlib :: "'c zlib_lib"
  zstd :: "'c zstd_lib"
  dev :: "'d QIODevice"
  new_char :: "nat \<Rightarrow> byte list"

definition bounded :: "byte list \<Rightarrow> nat \<Rightarrow> 's \<times> nat \<times> byte list \<times> 'c \<Rightarrow> 's \<times> nat \<times> byte list \<times> 'c" where
  "bounded inp room r = (case r of (s, used, out, z) \<Rightarrow> (s, min used (length inp), take room out, z))"

text \<open>\<^verbatim>\<open>new char[n]\<close>: \<open>n\<close> bytes of indeterminate content.\<close>

definition alloc :: "('c, 'd) env \<Rightarrow> nat \<Rightarrow> byte list" where
  "alloc E n = take n (new_char E n @ replicate n 0)"

text \<open>Writing \<open>bs\<close> at the start of the scratch buffer leaves the bytes behind them as they were.\<close>

definition store :: "byte list \<Rightarrow> byte list \<Rightarrow> byte list" where
  "store bs buf = bs @ drop (length bs) buf"

subsection \<open>The object\<close>

text \<open>
  One record holds the public object (the open mode and the error string of its
  \<^verbatim>\<open>QIODevice\<close> base class) and the private object it owns. \<open>backend\<close> is the dynamic
  type of the private object. \<open>next_in\<close> is an offset into \<open>buffer\<close>; the internal
  state of \<^verbatim>\<open>zlibStream\<close> and the two zstd stream handles are \<open>None\<close> when not
  allocated. \<open>zstdIn_size\<close> and \<open>zstdIn_pos\<close> are the fields of \<^verbatim>\<open>zstdInBuffer\<close>, whose
  \<^verbatim>\<open>src\<close> is \<open>buffer\<close>. The buffer size is a natural number: the constructors are not
  modelled for a negative size. A null \<^verbatim>\<open>next_in\<close> is written as offset 0 with
  \<open>avail_in = 0\<close>. The caller's data of a write is a list, of which the backend sees
  what the length it computes from \<open>maxSize\<close> covers.
\<close>

record ('c, 'd) QtIOCompressor =
  openMode :: nat
  errorString :: string
  backend :: Backend
  device :: 'd
  manageDevice :: bool
  state :: State
  bufferSize :: nat
  buffer :: "byte list"
  compressionLevel :: int
  streamFormat :: StreamFormat
  zlibStream :: "'c option"
  next_in :: nat
  avail_in :: nat
  zstdCStream :: "'c option"
  zstdDStream :: "'c option"
  zstdIn_size :: nat
  zstdIn_pos :: nat

definition isOpen :: "('c, 'd) QtIOCompressor \<Rightarrow> bool" where
  "isOpen c \<longleftrightarrow> openMode c \<noteq> NotOpen"

definition setErrorString :: "string \<Rightarrow> ('c, 'd) QtIOCompressor \<Rightarrow> ('c, 'd) QtIOCompressor" where
  "setErrorString errorMessage c = c\<lparr>errorString := errorMessage\<rparr>"

subsection \<open>QtIOCompressorPrivate\<close>

text \<open>
  \<^verbatim>\<open>writeBytes\<close>: a do-while loop that calls \<^verbatim>\<open>device->write\<close> at least once, also for
  an empty output, and again as long as bytes are left.
\<close>

fun writeBytes_loop :: "'d QIODevice \<Rightarrow> nat \<Rightarrow> byte list \<Rightarrow> 'd \<Rightarrow> (bool \<times> 'd) option" where
  "writeBytes_loop D 0 bs d = None"
| "writeBytes_loop D (Suc fuel) bs d =
     (case dev_write D bs d of
        (None, d') \<Rightarrow> Some (False, d')
      | (Some bytesWritten, d') \<Rightarrow>
          (if drop bytesWritten bs \<noteq> [] then writeBytes_loop D fuel (drop bytesWritten bs) d'
           else Some (True, d')))"

definition writeBytes ::
  "('c, 'd) env \<Rightarrow> nat \<Rightarrow> byte list \<Rightarrow> ('c, 'd) QtIOCompressor \<Rightarrow> (bool \<times> ('c, 'd) QtIOCompressor) option" where
  "writeBytes E fuel bs c =
     (case writeBytes_loop (dev E) fuel bs (device c) of
        None \<Rightarrow> None
      | Some (False, d') \<Rightarrow>
          Some (False, setErrorString (''Error writing to underlying device: '' @ dev_errorString (dev E) d')
                         (c\<lparr>device := d'\<rparr>))
      | Some (True, d') \<Rightarrow> Some (True, c\<lparr>device := d', state := BytesWritten\<rparr>))"

subsection \<open>QtIOCompressorZlibPrivate\<close>

definition QtIOCompressorZlibPrivate ::
  "('c, 'd) env \<Rightarrow> 'd \<Rightarrow> StreamFormat \<Rightarrow> int \<Rightarrow> nat \<Rightarrow> ('c, 'd) QtIOCompressor" where
  "QtIOCompressorZlibPrivate E dv fmt level bufSize =
     \<lparr>openMode = NotOpen, errorString = [], backend = ZlibPrivate, device = dv,
      manageDevice = False, state = Closed, bufferSize = bufSize, buffer = alloc E bufSize,
      compressionLevel = level, streamFormat = fmt, zlibStream = None, next_in = 0,
      avail_in = 0, zstdCStream = None, zstdDStream = None, zstdIn_size = 0, zstdIn_pos = 0\<rparr>"

definition checkGzipSupport :: "string \<Rightarrow> bool" where
  "checkGzipSupport versionString =
     (if length versionString < 3 then False
      else if versionString ! 0 = CHR ''0''
              \<or> (versionString ! 0 = CHR ''1''
                  \<and> (versionString ! 2 = CHR ''0'' \<or> versionString ! 2 = CHR ''1''))
      then False
      else True)"

definition setZlibError ::
  "('c, 'd) env \<Rightarrow> string \<Rightarrow> int \<Rightarrow> ('c, 'd) QtIOCompressor \<Rightarrow> ('c, 'd) QtIOCompressor" where
  "setZlibError E errorMessage zlibErrorCode c =
     (case zError (zlib E) zlibErrorCode of
        Some zlibErrorString \<Rightarrow> setErrorString (errorMessage @ zlibErrorString) c
      | None \<Rightarrow> setErrorString (errorMessage @ '' Unknown error, code '' @ number zlibErrorCode) c)"

definition windowBits :: "StreamFormat \<Rightarrow> int" where
  "windowBits fmt = (case fmt of GzipFormat \<Rightarrow> 31 | RawZipFormat \<Rightarrow> - 15 | ZlibFormat \<Rightarrow> 15)"

text \<open>
  \<^verbatim>\<open>inflateInit(strm)\<close> is zlib's \<^verbatim>\<open>inflateInit2\<close> with 15 window bits, and
  \<^verbatim>\<open>deflateInit(strm, level)\<close> its \<^verbatim>\<open>deflateInit2\<close> with 15 window bits and the
  default method, memory level and strategy, which the source passes in its own
  \<^verbatim>\<open>deflateInit2\<close> call as well.
\<close>

definition Zlib_initialize ::
  "('c, 'd) env \<Rightarrow> bool \<Rightarrow> ('c, 'd) QtIOCompressor \<Rightarrow> bool \<times> ('c, 'd) QtIOCompressor" where
  "Zlib_initialize E read c =
     (if read then
        (let c1 = c\<lparr>state := NotReadFirstByte, avail_in := 0, next_in := 0\<rparr> in
         if streamFormat c = ZlibFormat then
           (case inflateInit2 (zlib E) 15 of (status, z) \<Rightarrow>
              if status \<noteq> Z_OK
              then (False, setZlibError E ''Internal zlib error: '' status (c1\<lparr>zlibStream := z\<rparr>))
              else (True, c1\<lparr>zlibStream := z\<rparr>))
         else if checkGzipSupport (zlibVersion (zlib E)) = False then
           (False, setErrorString ''The gzip format not supported in this version of zlib.'' c1)
         else
           (case inflateInit2 (zlib E) (windowBits (streamFormat c)) of (status, z) \<Rightarrow>
              if status \<noteq> Z_OK
              then (False, setZlibError E ''Internal zlib error: '' status (c1\<lparr>zlibStream := z\<rparr>))
              else (True, c1\<lparr>zlibStream := z\<rparr>)))
      else
        (let c1 = c\<lparr>state := NoBytesWritten\<rparr> in
         case deflateInit2 (zlib E) (compressionLevel c)
                (if streamFormat c = ZlibFormat then 15 else windowBits (streamFormat c)) of
           (status, z) \<Rightarrow>
              if status \<noteq> Z_OK
              then (False, setZlibError E ''Internal zlib error: '' status (c1\<lparr>zlibStream := z\<rparr>))
              else (True, c1\<lparr>zlibStream := z\<rparr>)))"

text \<open>A call on a stream without internal state is zlib's \<^verbatim>\<open>Z_STREAM_ERROR\<close>.\<close>

definition call_inflate ::
  "('c, 'd) env \<Rightarrow> 'c option \<Rightarrow> byte list \<Rightarrow> nat \<Rightarrow> int \<Rightarrow> int \<times> nat \<times> byte list \<times> 'c option" where
  "call_inflate E zs inp room flush =
     (case zs of
        None \<Rightarrow> (Z_STREAM_ERROR, 0, [], None)
      | Some z \<Rightarrow> (case bounded inp room (inflate (zlib E) z inp room flush) of
                    (status, used, out, z') \<Rightarrow> (status, used, out, Some z')))"

definition call_deflate ::
  "('c, 'd) env \<Rightarrow> 'c option \<Rightarrow> byte list \<Rightarrow> nat \<Rightarrow> int \<Rightarrow> int \<times> nat \<times> byte list \<times> 'c option" where
  "call_deflate E zs inp room flush =
     (case zs of
        None \<Rightarrow> (Z_STREAM_ERROR, 0, [], None)
      | Some z \<Rightarrow> (case bounded inp room (deflate (zlib E) z inp room flush) of
                    (status, used, out, z') \<Rightarrow> (status, used, out, Some z')))"

text \<open>
  \<^verbatim>\<open>writeData\<close>: \<open>inp\<close> is the input the stream still holds (\<^verbatim>\<open>avail_in\<close> bytes at
  \<^verbatim>\<open>next_in\<close>). Each round offers the whole scratch buffer as room, hands the bytes the
  codec produced to \<open>writeBytes\<close> and goes on while the codec filled the buffer.
\<close>

fun Zlib_write_loop ::
  "('c, 'd) env \<Rightarrow> nat \<Rightarrow> ('c, 'd) QtIOCompressor \<Rightarrow> byte list \<Rightarrow> int
     \<Rightarrow> (fault + int \<times> ('c, 'd) QtIOCompressor) option" where
  "Zlib_write_loop E 0 c inp maxSize = None"
| "Zlib_write_loop E (Suc fuel) c inp maxSize =
     (case call_deflate E (zlibStream c) inp (uInt (int (bufferSize c))) Z_NO_FLUSH of
        (status, used, out, z') \<Rightarrow>
          (let c1 = c\<lparr>zlibStream := z', avail_in := length inp - used, buffer := store out (buffer c)\<rparr> in
           if status \<noteq> Z_OK then
             Some (Inr (- 1, setZlibError E ''Internal zlib error when compressing: '' status
                               (c1\<lparr>state := Error\<rparr>)))
           else
             (case writeBytes E fuel out c1 of
                None \<Rightarrow> None
              | Some (False, c2) \<Rightarrow> Some (Inr (- 1, c2))
              | Some (True, c2) \<Rightarrow>
                  if uInt (int (bufferSize c)) - length out = 0
                  then Zlib_write_loop E fuel c2 (drop used inp) maxSize
                  else if \<not> QT_NO_DEBUG E \<and> avail_in c2 \<noteq> 0 then Some (Inl AssertionFailed)
                  else Some (Inr (maxSize, c2)))))"

definition Zlib_writeData ::
  "('c, 'd) env \<Rightarrow> nat \<Rightarrow> ('c, 'd) QtIOCompressor \<Rightarrow> byte list \<Rightarrow> int
     \<Rightarrow> (fault + int \<times> ('c, 'd) QtIOCompressor) option" where
  "Zlib_writeData E fuel c data maxSize =
     Zlib_write_loop E fuel (c\<lparr>avail_in := uInt maxSize\<rparr>) (take (uInt maxSize) data) maxSize"

text \<open>
  The first block of the read loop: when the stream holds no input, read up to
  \<open>bufferSize\<close> bytes from the device into the scratch buffer. \<open>Inl\<close> is a
  \<^verbatim>\<open>return\<close> out of \<^verbatim>\<open>readData\<close> (with the value returned), \<open>Inr\<close> goes
  on to the codec call.
\<close>

definition Zlib_refill ::
  "('c, 'd) env \<Rightarrow> ('c, 'd) QtIOCompressor \<Rightarrow> int \<times> ('c, 'd) QtIOCompressor + ('c, 'd) QtIOCompressor" where
  "Zlib_refill E c =
     (if avail_in c = 0 then
        (case dev_read (dev E) (bufferSize c) (device c) of
           (None, d') \<Rightarrow>
             Inl (- 1, setErrorString
                        (''Error reading data from underlying device: '' @ dev_errorString (dev E) d')
                        (c\<lparr>device := d', next_in := 0, avail_in := uInt (- 1), state := Error\<rparr>))
         | (Some bytes, d') \<Rightarrow>
             (let c1 = c\<lparr>device := d', buffer := store (take (bufferSize c) bytes) (buffer c),
                         next_in := 0, avail_in := length (take (bufferSize c) bytes)\<rparr> in
              if state c1 \<noteq> InStream then
                (if avail_in c1 = 0 then Inl (0, c1) else Inr (c1\<lparr>state := InStream\<rparr>))
              else Inr c1))
      else Inr c)"

text \<open>\<^verbatim>\<open>device->ungetChar(buf[i])\<close> for each index of a list, in its order.\<close>

fun unget_at :: "'d QIODevice \<Rightarrow> byte list \<Rightarrow> nat list \<Rightarrow> 'd \<Rightarrow> fault + 'd" where
  "unget_at D buf [] d = Inr d"
| "unget_at D buf (i # idx) d =
     (if i < length buf then unget_at D buf idx (dev_ungetChar D (buf ! i) d)
      else Inl OutOfBoundsRead)"

text \<open>
  \<^verbatim>\<open>for (int i = zlibStream.avail_in; i >= 0; --i) device->ungetChar(*(next_in + i))\<close>:
  the indices \<open>next_in + avail_in\<close> down to \<open>next_in\<close>.
\<close>

definition Zlib_unget_indices :: "('c, 'd) QtIOCompressor \<Rightarrow> nat list" where
  "Zlib_unget_indices c =
     (if to_int (avail_in c) < 0 then []
      else map (\<lambda>i. next_in c + i) (rev [0..<Suc (nat (to_int (avail_in c)))]))"

fun Zlib_read_loop ::
  "('c, 'd) env \<Rightarrow> nat \<Rightarrow> ('c, 'd) QtIOCompressor \<Rightarrow> byte list \<Rightarrow> nat \<Rightarrow> int
     \<Rightarrow> (fault + int \<times> byte list \<times> ('c, 'd) QtIOCompressor) option" where
  "Zlib_read_loop E 0 c data avail_out maxSize = None"
| "Zlib_read_loop E (Suc fuel) c data avail_out maxSize =
     (case Zlib_refill E c of
        Inl (r, c') \<Rightarrow> Some (Inr (r, data, c'))
      | Inr c1 \<Rightarrow>
          (case call_inflate E (zlibStream c1)
                  (take (avail_in c1) (drop (next_in c1) (buffer c1))) avail_out Z_SYNC_FLUSH of
             (status, used, out, z') \<Rightarrow>
               (let c2 = c1\<lparr>zlibStream := z', next_in := next_in c1 + used,
                            avail_in := avail_in c1 - used\<rparr> in
                if status = Z_NEED_DICT \<or> status = Z_DATA_ERROR \<or> status = Z_MEM_ERROR then
                  Some (Inr (- 1, data @ out,
                             setZlibError E ''Internal zlib error when decompressing: '' status
                               (c2\<lparr>state := Error\<rparr>)))
                else if status = Z_BUF_ERROR then Some (Inr (0, data @ out, c2))
                else if avail_out - length out \<noteq> 0 \<and> status \<noteq> Z_STREAM_END then
                  Zlib_read_loop E fuel c2 (data @ out) (avail_out - length out) maxSize
                else if status = Z_STREAM_END then
                  (case unget_at (dev E) (buffer c2) (Zlib_unget_indices c2) (device c2) of
                     Inl f \<Rightarrow> Some (Inl f)
                   | Inr d' \<Rightarrow>
                       Some (Inr (int (uInt (maxSize - int (avail_out - length out))), data @ out,
                                  c2\<lparr>state := EndOfStream, device := d'\<rparr>)))
                else Some (Inr (int (uInt (maxSize - int (avail_out - length out))), data @ out, c2)))))"

definition Zlib_readData ::
  "('c, 'd) env \<Rightarrow> nat \<Rightarrow> ('c, 'd) QtIOCompressor \<Rightarrow> int
     \<Rightarrow> (fault + int \<times> byte list \<times> ('c, 'd) QtIOCompressor) option" where
  "Zlib_readData E fuel c maxSize = Zlib_read_loop E fuel c [] (uInt maxSize) maxSize"

fun flushZlib_loop ::
  "('c, 'd) env \<Rightarrow> nat \<Rightarrow> ('c, 'd) QtIOCompressor \<Rightarrow> int \<Rightarrow> (fault + ('c, 'd) QtIOCompressor) option" where
  "flushZlib_loop E 0 c flushMode = None"
| "flushZlib_loop E (Suc fuel) c flushMode =
     (case call_deflate E (zlibStream c) [] (uInt (int (bufferSize c))) flushMode of
        (status, used, out, z') \<Rightarrow>
          (let c1 = c\<lparr>zlibStream := z', buffer := store out (buffer c)\<rparr> in
           if status \<noteq> Z_OK \<and> status \<noteq> Z_STREAM_END then
             Some (Inr (setZlibError E ''Internal zlib error when compressing: '' status
                          (c1\<lparr>state := Error\<rparr>)))
           else
             (case writeBytes E fuel out c1 of
                None \<Rightarrow> None
              | Some (False, c2) \<Rightarrow> Some (Inr c2)
              | Some (True, c2) \<Rightarrow>
                  if (flushMode = Z_FINISH \<and> status \<noteq> Z_STREAM_END)
                     \<or> (flushMode \<noteq> Z_FINISH \<and> uInt (int (bufferSize c)) - length out = 0)
                  then flushZlib_loop E fuel c2 flushMode
                  else if \<not> QT_NO_DEBUG E
                          \<and> (if flushMode = Z_FINISH then status \<noteq> Z_STREAM_END else status \<noteq> Z_OK)
                  then Some (Inl AssertionFailed)
                  else Some (Inr c2))))"

definition flushZlib ::
  "('c, 'd) env \<Rightarrow> nat \<Rightarrow> ('c, 'd) QtIOCompressor \<Rightarrow> int \<Rightarrow> (fault + ('c, 'd) QtIOCompressor) option" where
  "flushZlib E fuel c flushMode = flushZlib_loop E fuel (c\<lparr>next_in := 0, avail_in := 0\<rparr>) flushMode"

definition Zlib_flush ::
  "('c, 'd) env \<Rightarrow> nat \<Rightarrow> ('c, 'd) QtIOCompressor \<Rightarrow> (fault + ('c, 'd) QtIOCompressor) option" where
  "Zlib_flush E fuel c = flushZlib E fuel c Z_SYNC_FLUSH"

text \<open>\<^verbatim>\<open>inflateEnd\<close> and \<^verbatim>\<open>deflateEnd\<close> free the internal state of the stream.\<close>

definition Zlib_finalize ::
  "('c, 'd) env \<Rightarrow> nat \<Rightarrow> ('c, 'd) QtIOCompressor \<Rightarrow> bool \<Rightarrow> (fault + ('c, 'd) QtIOCompressor) option" where
  "Zlib_finalize E fuel c read =
     (if read then Some (Inr (c\<lparr>state := NotReadFirstByte, zlibStream := None\<rparr>))
      else if state c = BytesWritten then
        (case flushZlib E fuel (c\<lparr>state := NoBytesWritten\<rparr>) Z_FINISH of
           None \<Rightarrow> None
         | Some (Inl f) \<Rightarrow> Some (Inl f)
         | Some (Inr c1) \<Rightarrow> Some (Inr (c1\<lparr>zlibStream := None\<rparr>)))
      else Some (Inr (c\<lparr>zlibStream := None\<rparr>)))"

subsection \<open>QtIOCompressorZstdPrivate\<close>

text \<open>
  Each function has two bodies, selected by \<^verbatim>\<open>WITH_XC_ZSTD\<close>. The constructor passes
  \<^verbatim>\<open>nullptr\<close> as the scratch buffer (the empty list here); \<open>initialize\<close> allocates it.
\<close>

definition QtIOCompressorZstdPrivate ::
  "('c, 'd) env \<Rightarrow> 'd \<Rightarrow> int \<Rightarrow> nat \<Rightarrow> ('c, 'd) QtIOCompressor" where
  "QtIOCompressorZstdPrivate E dv level bufferSizeHint =
     \<lparr>openMode = NotOpen, errorString = [], backend = ZstdPrivate, device = dv,
      manageDevice = False, state = (if WITH_XC_ZSTD E then Closed else Error),
      bufferSize = bufferSizeHint, buffer = [],
      compressionLevel = level, streamFormat = ZlibFormat, zlibStream = None, next_in = 0,
      avail_in = 0, zstdCStream = None, zstdDStream = None, zstdIn_size = 0, zstdIn_pos = 0\<rparr>"

definition setZstdError ::
  "('c, 'd) env \<Rightarrow> string \<Rightarrow> nat \<Rightarrow> ('c, 'd) QtIOCompressor \<Rightarrow> ('c, 'd) QtIOCompressor" where
  "setZstdError E errorMessage zstdErrorCode c =
     (case (if WITH_XC_ZSTD E then ZSTD_getErrorName (zstd E) zstdErrorCode else None) of
        Some zstdErrorString \<Rightarrow> setErrorString (errorMessage @ zstdErrorString) c
      | None \<Rightarrow>
          setErrorString (errorMessage @ '' Unknown error, code '' @ number (int zstdErrorCode)) c)"

definition Zstd_initialize ::
  "('c, 'd) env \<Rightarrow> bool \<Rightarrow> ('c, 'd) QtIOCompressor \<Rightarrow> bool \<times> ('c, 'd) QtIOCompressor" where
  "Zstd_initialize E read c =
     (if WITH_XC_ZSTD E then
        (if read then
           (case ZSTD_createDStream (zstd E) of
              None \<Rightarrow> (False, setErrorString ''Internal zstd error'' (c\<lparr>zstdDStream := None\<rparr>))
            | Some ds \<Rightarrow>
                (case ZSTD_initDStream (zstd E) ds of (status, ds') \<Rightarrow>
                   if ZSTD_isError (zstd E) status then
                     (False, setZstdError E ''Internal zstd error: '' status (c\<lparr>zstdDStream := Some ds'\<rparr>))
                   else
                     (let n = max (ZSTD_DStreamInSize (zstd E)) (bufferSize c) in
                      (True, c\<lparr>zstdDStream := Some ds', bufferSize := n, buffer := alloc E n,
                               zstdIn_size := 0, zstdIn_pos := 0\<rparr>))))
         else
           (case ZSTD_createCStream (zstd E) of
              None \<Rightarrow> (False, setErrorString ''Internal zstd error'' (c\<lparr>zstdCStream := None\<rparr>))
            | Some cs \<Rightarrow>
                (case ZSTD_initCStream (zstd E) cs (compressionLevel c) of (status, cs') \<Rightarrow>
                   if ZSTD_isError (zstd E) status then
                     (False, setZstdError E ''Internal zstd error: '' status (c\<lparr>zstdCStream := Some cs'\<rparr>))
                   else
                     (let n = max (ZSTD_CStreamOutSize (zstd E)) (bufferSize c) in
                      (True, c\<lparr>zstdCStream := Some cs', bufferSize := n, buffer := alloc E n,
                               zstdIn_size := 0, zstdIn_pos := 0\<rparr>)))))
      else (False, setErrorString ''this build doesn't ship zstd support'' c))"

definition Zstd_refill ::
  "('c, 'd) env \<Rightarrow> ('c, 'd) QtIOCompressor \<Rightarrow> int \<times> ('c, 'd) QtIOCompressor + ('c, 'd) QtIOCompressor" where
  "Zstd_refill E c =
     (if zstdIn_pos c \<ge> zstdIn_size c then
        (case dev_read (dev E) (bufferSize c) (device c) of
           (None, d') \<Rightarrow>
             Inl (- 1, setErrorString
                        (''Error reading data from underlying device: '' @ dev_errorString (dev E) d')
                        (c\<lparr>device := d', state := Error\<rparr>))
         | (Some bytes, d') \<Rightarrow>
             (let c1 = c\<lparr>device := d', buffer := store (take (bufferSize c) bytes) (buffer c),
                         zstdIn_pos := 0, zstdIn_size := length (take (bufferSize c) bytes)\<rparr> in
              if state c1 \<noteq> InStream then
                (if zstdIn_size c1 = 0 then Inl (0, c1) else Inr (c1\<lparr>state := InStream\<rparr>))
              else Inr c1))
      else Inr c)"

text \<open>
  \<^verbatim>\<open>while (pos < size) device->ungetChar(src[--size])\<close>: the indices \<open>size - 1\<close> down to
  \<open>pos\<close>.
\<close>

definition Zstd_unget_indices :: "('c, 'd) QtIOCompressor \<Rightarrow> nat list" where
  "Zstd_unget_indices c = rev [zstdIn_pos c..<zstdIn_size c]"

fun Zstd_read_loop ::
  "('c, 'd) env \<Rightarrow> nat \<Rightarrow> ('c, 'd) QtIOCompressor \<Rightarrow> byte list \<Rightarrow> nat
     \<Rightarrow> (fault + int \<times> byte list \<times> ('c, 'd) QtIOCompressor) option" where
  "Zstd_read_loop E 0 c data room = None"
| "Zstd_read_loop E (Suc fuel) c data room =
     (case Zstd_refill E c of
        Inl (r, c') \<Rightarrow> Some (Inr (r, data, c'))
      | Inr c1 \<Rightarrow>
          (case zstdDStream c1 of
             None \<Rightarrow> Some (Inl NullPointer)
           | Some ds \<Rightarrow>
               (case bounded (take (zstdIn_size c1 - zstdIn_pos c1) (drop (zstdIn_pos c1) (buffer c1))) room
                       (ZSTD_decompressStream (zstd E) ds
                          (take (zstdIn_size c1 - zstdIn_pos c1) (drop (zstdIn_pos c1) (buffer c1))) room) of
                  (status, used, out, ds') \<Rightarrow>
                    (let c2 = c1\<lparr>zstdDStream := Some ds', zstdIn_pos := zstdIn_pos c1 + used\<rparr> in
                     if status = 0 then
                       (case unget_at (dev E) (buffer c2) (Zstd_unget_indices c2) (device c2) of
                          Inl f \<Rightarrow> Some (Inl f)
                        | Inr d' \<Rightarrow>
                            Some (Inr (int (length (data @ out)), data @ out,
                                       c2\<lparr>state := EndOfStream, device := d',
                                           zstdIn_size := min (zstdIn_size c2) (zstdIn_pos c2)\<rparr>)))
                     else if ZSTD_isError (zstd E) status then
                       Some (Inr (- 1, data @ out,
                                  setZstdError E ''Internal zstd error when decompressing: '' status c2))
                     else if room - length out > 0 then
                       Zstd_read_loop E fuel c2 (data @ out) (room - length out)
                     else Some (Inr (int (length (data @ out)), data @ out, c2))))))"

definition Zstd_readData ::
  "('c, 'd) env \<Rightarrow> nat \<Rightarrow> ('c, 'd) QtIOCompressor \<Rightarrow> int
     \<Rightarrow> (fault + int \<times> byte list \<times> ('c, 'd) QtIOCompressor) option" where
  "Zstd_readData E fuel c maxSize =
     (if WITH_XC_ZSTD E then Zstd_read_loop E fuel c [] (size_t maxSize)
      else Some (Inr (- 1, [], c)))"

fun Zstd_write_loop ::
  "('c, 'd) env \<Rightarrow> nat \<Rightarrow> ('c, 'd) QtIOCompressor \<Rightarrow> byte list \<Rightarrow> int
     \<Rightarrow> (fault + int \<times> ('c, 'd) QtIOCompressor) option" where
  "Zstd_write_loop E 0 c inp maxSize = None"
| "Zstd_write_loop E (Suc fuel) c inp maxSize =
     (case zstdCStream c of
        None \<Rightarrow> Some (Inl NullPointer)
      | Some cs \<Rightarrow>
          (case bounded inp (bufferSize c)
                  (ZSTD_compressStream2 (zstd E) cs inp (bufferSize c) ZSTD_e_continue) of
             (status, used, out, cs') \<Rightarrow>
               (let c1 = c\<lparr>zstdCStream := Some cs', buffer := store out (buffer c)\<rparr> in
                if ZSTD_isError (zstd E) status then
                  Some (Inr (- 1, setZstdError E ''Internal zstd error when compressing: '' status
                                    (c1\<lparr>state := Error\<rparr>)))
                else
                  (case writeBytes E fuel out c1 of
                     None \<Rightarrow> None
                   | Some (False, c2) \<Rightarrow> Some (Inr (- 1, c2))
                   | Some (True, c2) \<Rightarrow>
                       if drop used inp \<noteq> [] then Zstd_write_loop E fuel c2 (drop used inp) maxSize
                       else Some (Inr (maxSize, c2\<lparr>state := BytesWritten\<rparr>))))))"

definition Zstd_writeData ::
  "('c, 'd) env \<Rightarrow> nat \<Rightarrow> ('c, 'd) QtIOCompressor \<Rightarrow> byte list \<Rightarrow> int
     \<Rightarrow> (fault + int \<times> ('c, 'd) QtIOCompressor) option" where
  "Zstd_writeData E fuel c data maxSize =
     (if WITH_XC_ZSTD E then Zstd_write_loop E fuel c (take (size_t maxSize) data) maxSize
      else Some (Inr (- 1, c)))"

fun flushZstd_loop ::
  "('c, 'd) env \<Rightarrow> nat \<Rightarrow> ('c, 'd) QtIOCompressor \<Rightarrow> ZSTD_EndDirective
     \<Rightarrow> (fault + ('c, 'd) QtIOCompressor) option" where
  "flushZstd_loop E 0 c flushMode = None"
| "flushZstd_loop E (Suc fuel) c flushMode =
     (case zstdCStream c of
        None \<Rightarrow> Some (Inl NullPointer)
      | Some cs \<Rightarrow>
          (case bounded [] (bufferSize c) (ZSTD_compressStream2 (zstd E) cs [] (bufferSize c) flushMode) of
             (status, used, out, cs') \<Rightarrow>
               (let c1 = c\<lparr>zstdCStream := Some cs', buffer := store out (buffer c)\<rparr> in
                if ZSTD_isError (zstd E) status then
                  Some (Inr (setZstdError E ''Internal zstd error when compressing: '' status
                               (c1\<lparr>state := Error\<rparr>)))
                else
                  (case writeBytes E fuel out c1 of
                     None \<Rightarrow> None
                   | Some (False, c2) \<Rightarrow> Some (Inr c2)
                   | Some (True, c2) \<Rightarrow>
                       if status \<noteq> 0 then flushZstd_loop E fuel c2 flushMode else Some (Inr c2)))))"

definition flushZstd ::
  "('c, 'd) env \<Rightarrow> nat \<Rightarrow> ('c, 'd) QtIOCompressor \<Rightarrow> ZSTD_EndDirective
     \<Rightarrow> (fault + ('c, 'd) QtIOCompressor) option" where
  "flushZstd E fuel c flushMode =
     (if WITH_XC_ZSTD E then flushZstd_loop E fuel c flushMode else Some (Inr c))"

definition Zstd_flush ::
  "('c, 'd) env \<Rightarrow> nat \<Rightarrow> ('c, 'd) QtIOCompressor \<Rightarrow> (fault + ('c, 'd) QtIOCompressor) option" where
  "Zstd_flush E fuel c = (if WITH_XC_ZSTD E then flushZstd E fuel c ZSTD_e_flush else Some (Inr c))"

definition Zstd_finalize ::
  "('c, 'd) env \<Rightarrow> nat \<Rightarrow> ('c, 'd) QtIOCompressor \<Rightarrow> bool \<Rightarrow> (fault + ('c, 'd) QtIOCompressor) option" where
  "Zstd_finalize E fuel c read =
     (if WITH_XC_ZSTD E then
        (if read then
           Some (Inr (c\<lparr>state := NotReadFirstByte, zstdDStream := None, zstdIn_size := 0, zstdIn_pos := 0\<rparr>))
         else if state c = BytesWritten then
           (case flushZstd E fuel (c\<lparr>state := NoBytesWritten\<rparr>) ZSTD_e_end of
              None \<Rightarrow> None
            | Some (Inl f) \<Rightarrow> Some (Inl f)
            | Some (Inr c1) \<Rightarrow> Some (Inr (c1\<lparr>zstdCStream := None, zstdIn_size := 0, zstdIn_pos := 0\<rparr>)))
         else Some (Inr (c\<lparr>zstdCStream := None, zstdIn_size := 0, zstdIn_pos := 0\<rparr>)))
      else Some (Inr c))"

subsection \<open>QtIOCompressor\<close>

text \<open>
  The two constructors create the private object of the matching backend. The virtual
  calls \<^verbatim>\<open>d->initialize\<close>, \<^verbatim>\<open>d->readData\<close>, \<^verbatim>\<open>d->writeData\<close>, \<^verbatim>\<open>d->flush\<close> and
  \<^verbatim>\<open>d->finalize\<close> dispatch on \<open>backend\<close>.
\<close>

definition QtIOCompressor_Gzip :: "('c, 'd) env \<Rightarrow> 'd \<Rightarrow> int \<Rightarrow> nat \<Rightarrow> ('c, 'd) QtIOCompressor" where
  "QtIOCompressor_Gzip E dv level bufSize = QtIOCompressorZlibPrivate E dv GzipFormat level bufSize"

definition QtIOCompressor_Zstd :: "('c, 'd) env \<Rightarrow> 'd \<Rightarrow> int \<Rightarrow> nat \<Rightarrow> ('c, 'd) QtIOCompressor" where
  "QtIOCompressor_Zstd E dv level bufSize = QtIOCompressorZstdPrivate E dv level bufSize"

definition d_initialize ::
  "('c, 'd) env \<Rightarrow> bool \<Rightarrow> ('c, 'd) QtIOCompressor \<Rightarrow> bool \<times> ('c, 'd) QtIOCompressor" where
  "d_initialize E read c =
     (case backend c of ZlibPrivate \<Rightarrow> Zlib_initialize E read c | ZstdPrivate \<Rightarrow> Zstd_initialize E read c)"

definition d_readData ::
  "('c, 'd) env \<Rightarrow> nat \<Rightarrow> ('c, 'd) QtIOCompressor \<Rightarrow> int
     \<Rightarrow> (fault + int \<times> byte list \<times> ('c, 'd) QtIOCompressor) option" where
  "d_readData E fuel c maxSize =
     (case backend c of ZlibPrivate \<Rightarrow> Zlib_readData E fuel c maxSize
                      | ZstdPrivate \<Rightarrow> Zstd_readData E fuel c maxSize)"

definition d_writeData ::
  "('c, 'd) env \<Rightarrow> nat \<Rightarrow> ('c, 'd) QtIOCompressor \<Rightarrow> byte list \<Rightarrow> int
     \<Rightarrow> (fault + int \<times> ('c, 'd) QtIOCompressor) option" where
  "d_writeData E fuel c data maxSize =
     (case backend c of ZlibPrivate \<Rightarrow> Zlib_writeData E fuel c data maxSize
                      | ZstdPrivate \<Rightarrow> Zstd_writeData E fuel c data maxSize)"

definition d_flush ::
  "('c, 'd) env \<Rightarrow> nat \<Rightarrow> ('c, 'd) QtIOCompressor \<Rightarrow> (fault + ('c, 'd) QtIOCompressor) option" where
  "d_flush E fuel c =
     (case backend c of ZlibPrivate \<Rightarrow> Zlib_flush E fuel c | ZstdPrivate \<Rightarrow> Zstd_flush E fuel c)"

definition d_finalize ::
  "('c, 'd) env \<Rightarrow> nat \<Rightarrow> ('c, 'd) QtIOCompressor \<Rightarrow> bool \<Rightarrow> (fault + ('c, 'd) QtIOCompressor) option" where
  "d_finalize E fuel c read =
     (case backend c of ZlibPrivate \<Rightarrow> Zlib_finalize E fuel c read
                      | ZstdPrivate \<Rightarrow> Zstd_finalize E fuel c read)"

text \<open>
  \<^verbatim>\<open>QtIOCompressor::open\<close>. The last step, \<^verbatim>\<open>QIODevice::open(mode)\<close> of the base class,
  records the mode and answers true. The warnings (\<^verbatim>\<open>qWarning\<close>) print and change
  nothing.
\<close>

definition QtIOCompressor_open ::
  "('c, 'd) env \<Rightarrow> nat \<Rightarrow> ('c, 'd) QtIOCompressor \<Rightarrow> bool \<times> ('c, 'd) QtIOCompressor" where
  "QtIOCompressor_open E mode c =
     (if isOpen c then (False, c)
      else
        (let read = testFlag mode ReadOnly;
             write = testFlag mode WriteOnly;
             both = (read \<and> write);
             neither = (\<not> (read \<or> write))
         in
         if both \<or> neither then (False, c)
         else if dev_isOpen (dev E) (device c) then
           (let c1 = c\<lparr>manageDevice := False\<rparr>;
                deviceMode = dev_openMode (dev E) (device c)
            in
            if read \<and> \<not> testFlag deviceMode ReadOnly then (False, c1)
            else if write \<and> \<not> testFlag deviceMode WriteOnly then (False, c1)
            else
              (case d_initialize E read c1 of
                 (False, c2) \<Rightarrow> (False, c2)
               | (True, c2) \<Rightarrow> (True, c2\<lparr>openMode := mode\<rparr>)))
         else
           (let c1 = c\<lparr>manageDevice := True\<rparr> in
            case dev_open (dev E) mode (device c1) of
              (False, d') \<Rightarrow>
                (False, setErrorString (''Error opening underlying device: '' @ dev_errorString (dev E) d')
                          (c1\<lparr>device := d'\<rparr>))
            | (True, d') \<Rightarrow>
                (case d_initialize E read (c1\<lparr>device := d'\<rparr>) of
                   (False, c2) \<Rightarrow> (False, c2)
                 | (True, c2) \<Rightarrow> (True, c2\<lparr>openMode := mode\<rparr>)))))"

text \<open>
  \<^verbatim>\<open>QtIOCompressor::close\<close>. \<^verbatim>\<open>QIODevice::close()\<close> of the base class leaves the object
  not open.
\<close>

definition QtIOCompressor_close ::
  "('c, 'd) env \<Rightarrow> nat \<Rightarrow> ('c, 'd) QtIOCompressor \<Rightarrow> (fault + ('c, 'd) QtIOCompressor) option" where
  "QtIOCompressor_close E fuel c =
     (if isOpen c = False then Some (Inr c)
      else
        (case d_finalize E fuel c (testFlag (openMode c) ReadOnly) of
           None \<Rightarrow> None
         | Some (Inl f) \<Rightarrow> Some (Inl f)
         | Some (Inr c1) \<Rightarrow>
             (let c2 = (if manageDevice c1 then c1\<lparr>device := dev_close (dev E) (device c1)\<rparr> else c1)
              in Some (Inr (c2\<lparr>openMode := NotOpen\<rparr>)))))"

definition QtIOCompressor_flush ::
  "('c, 'd) env \<Rightarrow> nat \<Rightarrow> ('c, 'd) QtIOCompressor \<Rightarrow> (fault + ('c, 'd) QtIOCompressor) option" where
  "QtIOCompressor_flush E fuel c =
     (if isOpen c = False \<or> testFlag (openMode c) ReadOnly then Some (Inr c)
      else d_flush E fuel c)"

text \<open>
  \<^verbatim>\<open>readData\<close> answers the value returned, the bytes stored into \<^verbatim>\<open>data\<close> and the new
  object; \<^verbatim>\<open>writeData\<close> takes the bytes at \<^verbatim>\<open>data\<close> and the count \<^verbatim>\<open>maxSize\<close>.
\<close>

definition QtIOCompressor_readData ::
  "('c, 'd) env \<Rightarrow> nat \<Rightarrow> ('c, 'd) QtIOCompressor \<Rightarrow> int
     \<Rightarrow> (fault + int \<times> byte list \<times> ('c, 'd) QtIOCompressor) option" where
  "QtIOCompressor_readData E fuel c maxSize =
     (if state c = EndOfStream then Some (Inr (0, [], c))
      else if state c = Error then Some (Inr (- 1, [], c))
      else d_readData E fuel c maxSize)"

definition QtIOCompressor_writeData ::
  "('c, 'd) env \<Rightarrow> nat \<Rightarrow> ('c, 'd) QtIOCompressor \<Rightarrow> byte list \<Rightarrow> int
     \<Rightarrow> (fault + int \<times> ('c, 'd) QtIOCompressor) option" where
  "QtIOCompressor_writeData E fuel c data maxSize =
     (if maxSize < 1 then Some (Inr (0, c))
      else if state c = Error then Some (Inr (- 1, c))
      else d_writeData E fuel c data maxSize)"

subsection \<open>Stand-ins for the collaborators\<close>

text \<open>
  The theorems below hold for every environment. To run the model on concrete input, the
  parameters get small stand-ins: an in-memory device and a toy codec. The codec is not
  a compression format. It copies bytes; the byte 0 ends a stream and the byte 255 is
  corrupt data, which the compressing side refuses as well. Like zlib it answers \<^verbatim>\<open>Z_BUF_ERROR\<close> when it can make no progress, and
  like zstd it answers an error code after 16 calls in a row without progress.
\<close>

record membuf =
  mb_mode :: nat
  mb_unread :: "byte list"
  mb_written :: "byte list"

text \<open>
  Modelled from the spec: the Endpoint (section 6), which is Qt's \<^verbatim>\<open>QIODevice\<close> and not
  part of the repository. \<open>read\<close> takes bytes from the front of the unread data,
  \<open>write\<close> appends all its bytes, and push-back makes a byte the next one read.
\<close>

definition MemDevice :: "membuf QIODevice" where
  "MemDevice =
     \<lparr>dev_isOpen = (\<lambda>d. mb_mode d \<noteq> NotOpen),
      dev_openMode = mb_mode,
      dev_open = (\<lambda>mode d. (True, d\<lparr>mb_mode := mode\<rparr>)),
      dev_close = (\<lambda>d. d\<lparr>mb_mode := NotOpen\<rparr>),
      dev_read = (\<lambda>n d. (Some (take n (mb_unread d)), d\<lparr>mb_unread := drop n (mb_unread d)\<rparr>)),
      dev_write = (\<lambda>bs d. (Some (length bs), d\<lparr>mb_written := mb_written d @ bs\<rparr>)),
      dev_ungetChar = (\<lambda>b d. d\<lparr>mb_unread := b # mb_unread d\<rparr>),
      dev_errorString = (\<lambda>d. [])\<rparr>"

fun copy_run :: "byte list \<Rightarrow> nat \<Rightarrow> nat \<times> nat \<times> byte list" where
  "copy_run [] room = (0, 0, [])"
| "copy_run (b # bs) room =
     (if b = 0 then (1, 1, [])
      else if b = 255 then (2, 0, [])
      else if room = 0 then (0, 0, [])
      else (case copy_run bs (room - 1) of (s, used, out) \<Rightarrow> (s, Suc used, b # out)))"

definition toy_inflate :: "nat \<Rightarrow> byte list \<Rightarrow> nat \<Rightarrow> int \<Rightarrow> int \<times> nat \<times> byte list \<times> nat" where
  "toy_inflate z inp room flush =
     (case copy_run inp room of (s, used, out) \<Rightarrow>
        (if s = 1 then Z_STREAM_END else if s = 2 then Z_DATA_ERROR
         else if used = 0 then Z_BUF_ERROR else Z_OK, used, out, z))"

definition toy_deflate :: "nat \<Rightarrow> byte list \<Rightarrow> nat \<Rightarrow> int \<Rightarrow> int \<times> nat \<times> byte list \<times> nat" where
  "toy_deflate z inp room flush =
     (if take 1 inp = [255] then (Z_STREAM_ERROR, 0, [], z)
      else if inp = [] \<and> flush = Z_FINISH then
        (if room = 0 then (Z_OK, 0, [], z) else (Z_STREAM_END, 0, [0], z))
      else if inp = [] \<and> flush = Z_NO_FLUSH then (Z_BUF_ERROR, 0, [], z)
      else (Z_OK, min (length inp) room, take room inp, z))"

definition toy_zlib :: "nat zlib_lib" where
  "toy_zlib =
     \<lparr>zlibVersion = ''1.2.13'',
      inflateInit2 = (\<lambda>wbits. (Z_OK, Some 0)),
      deflateInit2 = (\<lambda>level wbits. (Z_OK, Some 0)),
      inflate = toy_inflate,
      deflate = toy_deflate,
      zError = (\<lambda>code. if code = Z_DATA_ERROR then Some ''data error''
                        else if code = Z_BUF_ERROR then Some ''buffer error'' else None)\<rparr>"

definition toy_decompressStream :: "nat \<Rightarrow> byte list \<Rightarrow> nat \<Rightarrow> nat \<times> nat \<times> byte list \<times> nat" where
  "toy_decompressStream z inp room =
     (case copy_run inp room of (s, used, out) \<Rightarrow>
        (if s = 1 then (0, used, out, 0)
         else if s = 2 then (18446744073709551596, used, out, z)
         else if used = 0 then (if 15 \<le> z then (18446744073709551534, 0, [], z) else (1, 0, [], Suc z))
         else (1, used, out, 0)))"

definition toy_compressStream2 ::
  "nat \<Rightarrow> byte list \<Rightarrow> nat \<Rightarrow> ZSTD_EndDirective \<Rightarrow> nat \<times> nat \<times> byte list \<times> nat" where
  "toy_compressStream2 z inp room directive =
     (if inp = [] \<and> directive = ZSTD_e_end then
        (if room = 0 then (1, 0, [], z) else (0, 0, [0], z))
      else (0, min (length inp) room, take room inp, z))"

definition toy_zstd :: "nat zstd_lib" where
  "toy_zstd =
     \<lparr>ZSTD_createDStream = Some 0,
      ZSTD_initDStream = (\<lambda>ds. (0, ds)),
      ZSTD_DStreamInSize = 4,
      ZSTD_createCStream = Some 0,
      ZSTD_initCStream = (\<lambda>cs level. (0, cs)),
      ZSTD_CStreamOutSize = 4,
      ZSTD_decompressStream = toy_decompressStream,
      ZSTD_compressStream2 = toy_compressStream2,
      ZSTD_isError = (\<lambda>code. 18446744073709551496 < code),
      ZSTD_getErrorName = (\<lambda>code. Some ''zstd error'')\<rparr>"

text \<open>
  \<open>demo\<close> is a build with zstd and with assertions compiled in, \<open>demo_without_zstd\<close> the
  same build without zstd. Fresh memory holds the byte 9.
\<close>

definition demo :: "(nat, membuf) env" where
  "demo = \<lparr>WITH_XC_ZSTD = True, QT_NO_DEBUG = False, zlib = toy_zlib, zstd = toy_zstd,
           dev = MemDevice, new_char = (\<lambda>n. replicate n 9)\<rparr>"

definition demo_without_zstd :: "(nat, membuf) env" where
  "demo_without_zstd = demo\<lparr>WITH_XC_ZSTD := False\<rparr>"

definition closed_device :: "byte list \<Rightarrow> membuf" where
  "closed_device bytes = \<lparr>mb_mode = NotOpen, mb_unread = bytes, mb_written = []\<rparr>"

text \<open>
  Sessions on the stand-ins: a fresh object over a closed in-memory device that holds
  \<open>bytes\<close>, after \<open>open(mode)\<close>.
\<close>

definition gzip_session :: "nat \<Rightarrow> byte list \<Rightarrow> nat \<Rightarrow> (nat, membuf) QtIOCompressor" where
  "gzip_session mode bytes bufSize =
     snd (QtIOCompressor_open demo mode (QtIOCompressor_Gzip demo (closed_device bytes) 6 bufSize))"

definition zstd_session :: "nat \<Rightarrow> byte list \<Rightarrow> nat \<Rightarrow> (nat, membuf) QtIOCompressor" where
  "zstd_session mode bytes bufSize =
     snd (QtIOCompressor_open demo mode (QtIOCompressor_Zstd demo (closed_device bytes) 3 bufSize))"




text \<open>
  A whole write session, as a client runs it: \<open>open(WriteOnly)\<close>, one \<open>write\<close> of all of
  \<open>B\<close>, \<open>close\<close>. The result is the value \<open>write\<close> returned and the device afterwards.
\<close>

definition write_all ::
  "('c, 'd) env \<Rightarrow> nat \<Rightarrow> ('c, 'd) QtIOCompressor \<Rightarrow> byte list \<Rightarrow> (int \<times> 'd) option" where
  "write_all E fuel c B =
     (case QtIOCompressor_open E WriteOnly c of
        (False, c1) \<Rightarrow> None
      | (True, c1) \<Rightarrow>
          (case QtIOCompressor_writeData E fuel c1 B (int (length B)) of
             Some (Inr (r, c2)) \<Rightarrow>
               (case QtIOCompressor_close E fuel c2 of
                  Some (Inr c3) \<Rightarrow> Some (r, device c3)
                | _ \<Rightarrow> None)
           | _ \<Rightarrow> None))"

text \<open>The write session of the stand-ins after the codec has refused a write.\<close>

definition refused_write_session :: "(nat, membuf) QtIOCompressor" where
  "refused_write_session =
     (gzip_session WriteOnly [] 8)
       \<lparr>state := Error,
        errorString := ''Internal zlib error when compressing:  Unknown error, code -2'',
        avail_in := 1\<rparr>"








text \<open>
  Read sessions of the stand-ins in the middle of a stream: the zstd session that has read
  the first eight bytes of a nine-byte stream, and the sessions of both backends that
  have read and delivered the two bytes of a stream cut off after them, so that the
  codec wants more input and the device has none. \<open>demo_patient\<close> is \<open>demo\<close> with a zstd
  decoder that never gives up asking for input.
\<close>

definition mid_stream_session :: "(nat, membuf) QtIOCompressor" where
  "mid_stream_session =
     (zstd_session ReadOnly [] 8)
       \<lparr>device := \<lparr>mb_mode = ReadOnly, mb_unread = [0], mb_written = []\<rparr>,
        state := InStream, buffer := [1, 2, 3, 4, 5, 6, 7, 8], zstdIn_size := 8, zstdIn_pos := 8\<rparr>"

definition starving_session :: "Backend \<Rightarrow> (nat, membuf) QtIOCompressor" where
  "starving_session b =
     (case b of
        ZlibPrivate \<Rightarrow>
          (gzip_session ReadOnly [] 8)
            \<lparr>state := InStream, buffer := [1, 2, 9, 9, 9, 9, 9, 9], next_in := 2, avail_in := 0\<rparr>
      | ZstdPrivate \<Rightarrow>
          (zstd_session ReadOnly [] 8)
            \<lparr>state := InStream, buffer := [1, 2, 9, 9, 9, 9, 9, 9], zstdIn_size := 2, zstdIn_pos := 2\<rparr>)"

definition patient_decompressStream :: "nat \<Rightarrow> byte list \<Rightarrow> nat \<Rightarrow> nat \<times> nat \<times> byte list \<times> nat" where
  "patient_decompressStream z inp room =
     (case copy_run inp room of (s, used, out) \<Rightarrow>
        (if s = 1 then 0 else if s = 2 then 18446744073709551596 else 1, used, out, z))"

definition demo_patient :: "(nat, membuf) env" where
  "demo_patient = demo\<lparr>zstd := toy_zstd\<lparr>ZSTD_decompressStream := patient_decompressStream\<rparr>\<rparr>"

text \<open>Fuel for sixteen rounds of a loop.\<close>

abbreviation (input) fuel16 :: nat where
  "fuel16 \<equiv> Suc (Suc (Suc (Suc (Suc (Suc (Suc (Suc (Suc (Suc (Suc (Suc (Suc (Suc (Suc (Suc 0)))))))))))))))"

subsection \<open>Watching what a codec consumes\<close>

text \<open>
  The object keeps no count of the input its codec has taken: the zstd input buffer of
  \<^verbatim>\<open>writeData\<close> is a local variable. To state how much of the caller's data a write
  consumes, the codec is asked to keep the record itself: \<open>records_input consumed E\<close>
  says that the compressing calls of both libraries of \<open>E\<close> append the input bytes they
  consume to \<open>consumed\<close> of their state. \<open>logged E\<close> is the environment \<open>E\<close> with such a
  record attached to the state of its codecs, which work as before: every codec can be
  watched this way.
\<close>

definition records_input :: "('c \<Rightarrow> byte list) \<Rightarrow> ('c, 'd) env \<Rightarrow> bool" where
  "records_input consumed E \<longleftrightarrow>
     (\<forall>z inp room flush.
        case deflate (zlib E) z inp room flush of
          (status, used, out, z') \<Rightarrow> consumed z' = consumed z @ take used inp)
     \<and> (\<forall>cs inp room directive.
        case ZSTD_compressStream2 (zstd E) cs inp room directive of
          (status, used, out, cs') \<Rightarrow> consumed cs' = consumed cs @ take used inp)"

definition logged :: "('c, 'd) env \<Rightarrow> ('c \<times> byte list, 'd) env" where
  "logged E =
     \<lparr>WITH_XC_ZSTD = WITH_XC_ZSTD E, QT_NO_DEBUG = QT_NO_DEBUG E,
      zlib =
        \<lparr>zlibVersion = zlibVersion (zlib E),
         inflateInit2 = (\<lambda>wbits. case inflateInit2 (zlib E) wbits of
                            (status, z) \<Rightarrow> (status, map_option (\<lambda>z. (z, [])) z)),
         deflateInit2 = (\<lambda>level wbits. case deflateInit2 (zlib E) level wbits of
                            (status, z) \<Rightarrow> (status, map_option (\<lambda>z. (z, [])) z)),
         inflate = (\<lambda>zl inp room flush. case inflate (zlib E) (fst zl) inp room flush of
                       (status, used, out, z') \<Rightarrow> (status, used, out, (z', snd zl))),
         deflate = (\<lambda>zl inp room flush. case deflate (zlib E) (fst zl) inp room flush of
                       (status, used, out, z') \<Rightarrow> (status, used, out, (z', snd zl @ take used inp))),
         zError = zError (zlib E)\<rparr>,
      zstd =
        \<lparr>ZSTD_createDStream = map_option (\<lambda>z. (z, [])) (ZSTD_createDStream (zstd E)),
         ZSTD_initDStream = (\<lambda>zl. case ZSTD_initDStream (zstd E) (fst zl) of
                                (status, z') \<Rightarrow> (status, (z', snd zl))),
         ZSTD_DStreamInSize = ZSTD_DStreamInSize (zstd E),
         ZSTD_createCStream = map_option (\<lambda>z. (z, [])) (ZSTD_createCStream (zstd E)),
         ZSTD_initCStream = (\<lambda>zl level. case ZSTD_initCStream (zstd E) (fst zl) level of
                                (status, z') \<Rightarrow> (status, (z', snd zl))),
         ZSTD_CStreamOutSize = ZSTD_CStreamOutSize (zstd E),
         ZSTD_decompressStream = (\<lambda>zl inp room. case ZSTD_decompressStream (zstd E) (fst zl) inp room of
                       (status, used, out, z') \<Rightarrow> (status, used, out, (z', snd zl))),
         ZSTD_compressStream2 = (\<lambda>zl inp room directive.
                     case ZSTD_compressStream2 (zstd E) (fst zl) inp room directive of
                       (status, used, out, z') \<Rightarrow> (status, used, out, (z', snd zl @ take used inp))),
         ZSTD_isError = ZSTD_isError (zstd E),
         ZSTD_getErrorName = ZSTD_getErrorName (zstd E)\<rparr>,
      dev = dev E, new_char = new_char E\<rparr>"

text \<open>
  The write session of either backend on the stand-ins with the record attached.
\<close>

definition logged_session :: "Backend \<Rightarrow> (nat \<times> byte list, membuf) QtIOCompressor" where
  "logged_session b =
     snd (QtIOCompressor_open (logged demo) WriteOnly
            (case b of ZlibPrivate \<Rightarrow> QtIOCompressor_Gzip (logged demo) (closed_device []) 6 8
                     | ZstdPrivate \<Rightarrow> QtIOCompressor_Zstd (logged demo) (closed_device []) 3 8))"

section \<open>Running the model on the stand-ins\<close>

lemmas stand_in_defs = demo_def demo_without_zstd_def toy_zlib_def toy_zstd_def MemDevice_def
  closed_device_def toy_inflate_def toy_deflate_def toy_decompressStream_def
  toy_compressStream2_def alloc_def

lemmas session_defs = gzip_session_def zstd_session_def

lemmas object_defs = QtIOCompressor_Gzip_def QtIOCompressor_Zstd_def QtIOCompressorZlibPrivate_def
  QtIOCompressorZstdPrivate_def isOpen_def testFlag_def setErrorString_def setZlibError_def
  setZstdError_def windowBits_def checkGzipSupport_def bounded_def store_def uInt_def size_t_def
  to_int_def call_inflate_def call_deflate_def

lemmas open_defs = QtIOCompressor_open_def d_initialize_def Zlib_initialize_def Zstd_initialize_def

lemmas write_defs = QtIOCompressor_writeData_def d_writeData_def Zlib_writeData_def
  Zstd_writeData_def writeBytes_def

lemmas read_defs = QtIOCompressor_readData_def d_readData_def Zlib_readData_def Zstd_readData_def
  Zlib_refill_def Zstd_refill_def Zlib_unget_indices_def Zstd_unget_indices_def

lemmas close_defs = QtIOCompressor_close_def QtIOCompressor_flush_def d_finalize_def d_flush_def
  Zlib_finalize_def Zstd_finalize_def Zlib_flush_def Zstd_flush_def flushZlib_def flushZstd_def
  writeBytes_def

lemma replicate_numeral_unfold: "replicate (numeral k) x = x # replicate (pred_numeral k) x"
  by (simp add: numeral_eq_Suc)

lemma upt_numeral_unfold: "[i..<numeral k] = (if i < numeral k then i # [Suc i..<numeral k] else [])"
  by (rule upt_rec)

lemma gzip_write_session:
  "gzip_session WriteOnly [] 8 =
     \<lparr>openMode = 2, errorString = [], backend = ZlibPrivate,
      device = \<lparr>mb_mode = 2, mb_unread = [], mb_written = []\<rparr>,
      manageDevice = True, state = NoBytesWritten, bufferSize = 8,
      buffer = [9, 9, 9, 9, 9, 9, 9, 9], compressionLevel = 6,
      streamFormat = GzipFormat, zlibStream = Some 0, next_in = 0,
      avail_in = 0, zstdCStream = None, zstdDStream = None,
      zstdIn_size = 0, zstdIn_pos = 0\<rparr>"
  by (simp add: session_defs stand_in_defs object_defs open_defs replicate_numeral_unfold)

lemma gzip_read_session:
  "gzip_session ReadOnly [] 8 =
     \<lparr>openMode = 1, errorString = [], backend = ZlibPrivate,
      device = \<lparr>mb_mode = 1, mb_unread = [], mb_written = []\<rparr>,
      manageDevice = True, state = NotReadFirstByte, bufferSize = 8,
      buffer = [9, 9, 9, 9, 9, 9, 9, 9], compressionLevel = 6,
      streamFormat = GzipFormat, zlibStream = Some 0, next_in = 0,
      avail_in = 0, zstdCStream = None, zstdDStream = None,
      zstdIn_size = 0, zstdIn_pos = 0\<rparr>"
  by (simp add: session_defs stand_in_defs object_defs open_defs replicate_numeral_unfold)

lemma gzip_write_123:
  "QtIOCompressor_writeData demo (Suc (Suc 0)) (gzip_session WriteOnly [] 8) [1, 2, 3] 3 =
     Some (Inr (3, (gzip_session WriteOnly [] 8)
        \<lparr>device := \<lparr>mb_mode = 2, mb_unread = [], mb_written = [1, 2, 3]\<rparr>,
         state := BytesWritten, buffer := [1, 2, 3, 9, 9, 9, 9, 9]\<rparr>))"
  by (simp add: gzip_write_session write_defs stand_in_defs object_defs)



lemma zstd_read_session:
  "zstd_session ReadOnly [] 8 =
     \<lparr>openMode = 1, errorString = [], backend = ZstdPrivate,
      device = \<lparr>mb_mode = 1, mb_unread = [], mb_written = []\<rparr>,
      manageDevice = True, state = Closed, bufferSize = 8,
      buffer = [9, 9, 9, 9, 9, 9, 9, 9], compressionLevel = 3,
      streamFormat = ZlibFormat, zlibStream = None, next_in = 0,
      avail_in = 0, zstdCStream = None, zstdDStream = Some 0,
      zstdIn_size = 0, zstdIn_pos = 0\<rparr>"
  by (simp add: session_defs stand_in_defs object_defs open_defs replicate_numeral_unfold)

lemma zstd_session_device:
  "zstd_session ReadOnly (b # bytes) 8 =
     (zstd_session ReadOnly [] 8)\<lparr>device := \<lparr>mb_mode = 1, mb_unread = b # bytes, mb_written = []\<rparr>\<rparr>"
  by (simp add: session_defs stand_in_defs object_defs open_defs replicate_numeral_unfold)

lemma gzip_session_device:
  "gzip_session ReadOnly (b # bytes) 8 =
     (gzip_session ReadOnly [] 8)\<lparr>device := \<lparr>mb_mode = 1, mb_unread = b # bytes, mb_written = []\<rparr>\<rparr>"
  by (simp add: session_defs stand_in_defs object_defs open_defs replicate_numeral_unfold)

section \<open>The write surface\<close>

text \<open>
  Claim C9. A write of fewer than one byte is a pure no-op: for every \<open>maxSize < 1\<close>
  (zero and the negative values) and every object, in any state, \<^verbatim>\<open>writeData\<close>
  returns 0 and hands back the object as it was. No fuel is needed, so no loop runs;
  the device inside the object is the same for every device model, so it received no
  call; the lifecycle state and the error string are untouched.
\<close>

theorem zero_length_write_is_noop:
  "maxSize < 1 \<Longrightarrow> QtIOCompressor_writeData E fuel c data maxSize = Some (Inr (0, c))"
  by (simp add: QtIOCompressor_writeData_def)

theorem zero_length_write_is_noop_witness:
  "QtIOCompressor_writeData demo 0 (gzip_session WriteOnly [] 8) [] 0
     = Some (Inr (0, gzip_session WriteOnly [] 8))
   \<and> QtIOCompressor_writeData demo 0 refused_write_session [1, 2] (- 2)
     = Some (Inr (0, refused_write_session))"
  using zero_length_write_is_noop [of 0 demo 0 "gzip_session WriteOnly [] 8" "[]"]
    zero_length_write_is_noop [of "- 2" demo 0 refused_write_session "[1, 2]"]
  by simp
section \<open>The state Error\<close>










section \<open>Opening and closing\<close>





text \<open>
  No operation but \<^verbatim>\<open>open\<close> assigns \<open>manageDevice\<close>, and none but \<^verbatim>\<open>open\<close> and
  \<^verbatim>\<open>close\<close> changes the open mode: the setters of the error string, \<open>writeBytes\<close>, the
  loops of both backends and the public calls leave them as they are.
\<close>

lemma setErrorString_fields [simp]:
  "manageDevice (setErrorString m c) = manageDevice c"
  "openMode (setErrorString m c) = openMode c"
  "backend (setErrorString m c) = backend c"
  "state (setErrorString m c) = state c"
  "device (setErrorString m c) = device c"
  by (simp_all add: setErrorString_def)

lemma setZlibError_fields [simp]:
  "manageDevice (setZlibError E m code c) = manageDevice c"
  "openMode (setZlibError E m code c) = openMode c"
  "backend (setZlibError E m code c) = backend c"
  "state (setZlibError E m code c) = state c"
  "device (setZlibError E m code c) = device c"
  by (simp_all add: setZlibError_def split: option.splits)

lemma setZstdError_fields [simp]:
  "manageDevice (setZstdError E m n c) = manageDevice c"
  "openMode (setZstdError E m n c) = openMode c"
  "backend (setZstdError E m n c) = backend c"
  "state (setZstdError E m n c) = state c"
  "device (setZstdError E m n c) = device c"
  by (simp_all add: setZstdError_def split: option.splits)

























text \<open>
  The zlib backend assigns the 64-bit \<^verbatim>\<open>maxSize\<close> to the 32-bit \<^verbatim>\<open>zlibStream.avail_in\<close>, so
  the codec is offered only the first \<open>maxSize mod 2^32\<close> bytes of the caller's data,
  while \<^verbatim>\<open>writeData\<close> still returns \<open>maxSize\<close>. For every codec and device, two writes
  whose data agree on that prefix are the same call.
\<close>

lemma Zlib_writeData_reads_uInt_maxSize:
  "backend c = ZlibPrivate \<Longrightarrow> take (uInt maxSize) data1 = take (uInt maxSize) data2 \<Longrightarrow>
     QtIOCompressor_writeData E fuel c data1 maxSize = QtIOCompressor_writeData E fuel c data2 maxSize"
  by (simp add: QtIOCompressor_writeData_def d_writeData_def Zlib_writeData_def)

lemma d_initialize_backend: "d_initialize E read c = (b, c') \<Longrightarrow> backend c' = backend c"
  by (auto simp: d_initialize_def Zlib_initialize_def Zstd_initialize_def Let_def
      split: Backend.splits if_splits prod.splits option.splits)

lemma open_backend: "QtIOCompressor_open E mode c = (b, c') \<Longrightarrow> backend c' = backend c"
  by (auto simp: QtIOCompressor_open_def Let_def
      split: if_splits prod.splits bool.splits dest!: d_initialize_backend)

text \<open>
  Claim C1 (round trip). For every codec and device, a whole write session of the zlib
  backend (open for writing, one write of all of \<open>B\<close>, close) depends only on the length
  of \<open>B\<close> and on its first \<open>length B mod 2^32\<close> bytes: two inputs of the same length that
  agree on that prefix return the same value and leave the same bytes on the device. So
  the compressed stream of an input of \<open>2^32 + 1\<close> bytes is that of its first byte, and
  reading it back cannot yield every such input. The zstd backend converts to the 64-bit
  \<^verbatim>\<open>size_t\<close> and has no such cut.
\<close>

theorem zlib_long_write_is_cut:
  "backend c = ZlibPrivate \<Longrightarrow> length B1 = length B2 \<Longrightarrow>
   take (uInt (int (length B1))) B1 = take (uInt (int (length B1))) B2 \<Longrightarrow>
     write_all E fuel c B1 = write_all E fuel c B2"
proof -
  assume z: "backend c = ZlibPrivate" and len: "length B1 = length B2"
    and pre: "take (uInt (int (length B1))) B1 = take (uInt (int (length B1))) B2"
  obtain b c1 where op: "QtIOCompressor_open E WriteOnly c = (b, c1)"
    by (cases "QtIOCompressor_open E WriteOnly c")
  with z have "backend c1 = ZlibPrivate"
    by (simp add: open_backend)
  with pre have "QtIOCompressor_writeData E fuel c1 B1 (int (length B1))
      = QtIOCompressor_writeData E fuel c1 B2 (int (length B1))"
    by (rule Zlib_writeData_reads_uInt_maxSize [rotated])
  then have "QtIOCompressor_writeData E fuel c1 B1 (int (length B1))
      = QtIOCompressor_writeData E fuel c1 B2 (int (length B2))"
    by (simp only: len)
  then show ?thesis
    by (cases b) (simp_all add: write_all_def op)
qed

text \<open>
  On the stand-ins, three bytes make the round trip: the session leaves their
  compression \<open>[1, 2, 3, 0]\<close> on the device, and a read session over it returns them.
\<close>

lemma gzip_write_all_123:
  "write_all demo (Suc (Suc 0)) (QtIOCompressor_Gzip demo (closed_device []) 6 8) [1, 2, 3]
     = Some (3, \<lparr>mb_mode = NotOpen, mb_unread = [], mb_written = [1, 2, 3, 0]\<rparr>)"
  by (simp add: write_all_def open_defs write_defs close_defs stand_in_defs object_defs
      replicate_numeral_unfold)

lemma gzip_read_back_123:
  "QtIOCompressor_readData demo (Suc 0) (gzip_session ReadOnly [1, 2, 3, 0] 8) 16
     = Some (Inr (3, [1, 2, 3], (gzip_session ReadOnly [] 8)
          \<lparr>device := \<lparr>mb_mode = ReadOnly, mb_unread = [9], mb_written = []\<rparr>,
           state := EndOfStream, buffer := [1, 2, 3, 0, 9, 9, 9, 9], next_in := 4\<rparr>))"
  by (simp add: gzip_session_device gzip_read_session read_defs stand_in_defs object_defs
      upt_numeral_unfold)

text \<open>
  An input of \<open>2^32 + 1\<close> bytes does not: \<open>write\<close> returns \<open>2^32 + 1\<close>, the device holds the
  compression of the first byte, and reading it back returns that one byte.
\<close>

lemma gzip_open_for_writing:
  "QtIOCompressor_open demo WriteOnly (QtIOCompressor_Gzip demo (closed_device []) 6 8)
     = (True, gzip_session WriteOnly [] 8)"
  by (simp add: session_defs stand_in_defs object_defs open_defs replicate_numeral_unfold)

lemma gzip_write_4GiB_and_one:
  "QtIOCompressor_writeData demo (Suc (Suc 0)) (gzip_session WriteOnly [] 8)
       (1 # replicate 4294967296 7) 4294967297
     = Some (Inr (4294967297, (gzip_session WriteOnly [] 8)
          \<lparr>device := \<lparr>mb_mode = 2, mb_unread = [], mb_written = [1]\<rparr>,
           state := BytesWritten, buffer := [1, 9, 9, 9, 9, 9, 9, 9]\<rparr>))"
  by (simp add: gzip_write_session write_defs stand_in_defs object_defs)

lemma gzip_close_after_one:
  "QtIOCompressor_close demo (Suc (Suc 0)) ((gzip_session WriteOnly [] 8)
          \<lparr>device := \<lparr>mb_mode = 2, mb_unread = [], mb_written = [1]\<rparr>,
           state := BytesWritten, buffer := [1, 9, 9, 9, 9, 9, 9, 9]\<rparr>)
     = Some (Inr ((gzip_session WriteOnly [] 8)
          \<lparr>openMode := NotOpen, device := \<lparr>mb_mode = NotOpen, mb_unread = [], mb_written = [1, 0]\<rparr>,
           state := BytesWritten, buffer := [0, 9, 9, 9, 9, 9, 9, 9], zlibStream := None\<rparr>))"
  by (simp add: gzip_write_session close_defs stand_in_defs object_defs)

lemma gzip_write_all_4GiB_and_one:
  "write_all demo (Suc (Suc 0)) (QtIOCompressor_Gzip demo (closed_device []) 6 8)
       (1 # replicate 4294967296 7)
     = Some (4294967297, \<lparr>mb_mode = NotOpen, mb_unread = [], mb_written = [1, 0]\<rparr>)"
  by (simp add: write_all_def gzip_open_for_writing gzip_write_4GiB_and_one gzip_close_after_one)

lemma gzip_read_back_one:
  "QtIOCompressor_readData demo (Suc 0) (gzip_session ReadOnly [1, 0] 8) 16
     = Some (Inr (1, [1], (gzip_session ReadOnly [] 8)
          \<lparr>device := \<lparr>mb_mode = ReadOnly, mb_unread = [9], mb_written = []\<rparr>,
           state := EndOfStream, buffer := [1, 0, 9, 9, 9, 9, 9, 9], next_in := 2\<rparr>))"
  by (simp add: gzip_session_device gzip_read_session read_defs stand_in_defs object_defs
      upt_numeral_unfold)

theorem zlib_long_write_is_cut_witness:
  "backend (QtIOCompressor_Gzip demo (closed_device []) 6 8) = ZlibPrivate
   \<and> length (1 # replicate 4294967296 (7 :: byte)) = length (1 # replicate 4294967296 (5 :: byte))
   \<and> uInt (int (length (1 # replicate 4294967296 (7 :: byte)))) = 1
   \<and> 1 # replicate 4294967296 (7 :: byte) \<noteq> 1 # replicate 4294967296 5
   \<and> write_all demo (Suc (Suc 0)) (QtIOCompressor_Gzip demo (closed_device []) 6 8)
         (1 # replicate 4294967296 5)
     = Some (4294967297, \<lparr>mb_mode = NotOpen, mb_unread = [], mb_written = [1, 0]\<rparr>)
   \<and> write_all demo (Suc (Suc 0)) (QtIOCompressor_Gzip demo (closed_device []) 6 8)
         (1 # replicate 4294967296 7)
     = Some (4294967297, \<lparr>mb_mode = NotOpen, mb_unread = [], mb_written = [1, 0]\<rparr>)
   \<and> (\<exists>c'. QtIOCompressor_readData demo (Suc 0) (gzip_session ReadOnly [1, 0] 8) 16
          = Some (Inr (1, [1], c')))"
proof -
  have b: "backend (QtIOCompressor_Gzip demo (closed_device []) 6 8) = ZlibPrivate"
    by (simp add: object_defs)
  have l: "length (1 # replicate 4294967296 (5 :: byte)) = length (1 # replicate 4294967296 (7 :: byte))"
    by simp
  have u: "uInt (int (length (1 # replicate 4294967296 (5 :: byte)))) = 1"
    by (simp add: uInt_def)
  have u7: "uInt (int (length (1 # replicate 4294967296 (7 :: byte)))) = 1"
    by (simp add: uInt_def)
  have same:
    "take (uInt (int (length (1 # replicate 4294967296 (5 :: byte))))) (1 # replicate 4294967296 (5 :: byte))
      = take (uInt (int (length (1 # replicate 4294967296 (5 :: byte))))) (1 # replicate 4294967296 7)"
    unfolding u by simp
  have differ: "1 # replicate 4294967296 (7 :: byte) \<noteq> 1 # replicate 4294967296 5"
    by simp
  have again: "\<exists>c'. QtIOCompressor_readData demo (Suc 0) (gzip_session ReadOnly [1, 0] 8) 16
          = Some (Inr (1, [1], c'))"
    using gzip_read_back_one by blast
  note cut = zlib_long_write_is_cut [OF b l same, of demo "Suc (Suc 0)"]
  have five: "write_all demo (Suc (Suc 0)) (QtIOCompressor_Gzip demo (closed_device []) 6 8)
         (1 # replicate 4294967296 5)
     = Some (4294967297, \<lparr>mb_mode = NotOpen, mb_unread = [], mb_written = [1, 0]\<rparr>)"
    unfolding cut by (rule gzip_write_all_4GiB_and_one)
  from b l [symmetric] u7 differ five gzip_write_all_4GiB_and_one again
  show ?thesis by blast
qed

text \<open>
  Both write loops leave through one of three exits: a codec error (\<open>- 1\<close>), a failed
  \<open>writeBytes\<close> (\<open>- 1\<close>), or the end of the loop (\<open>maxSize\<close>).
\<close>

lemma Zlib_write_loop_result:
  "Zlib_write_loop E fuel c inp maxSize = Some (Inr (r, c')) \<Longrightarrow> r = - 1 \<or> r = maxSize"
proof (induction fuel arbitrary: c inp)
  case 0
  then show ?case by simp
next
  case (Suc fuel)
  then show ?case
    by (auto simp: Let_def split: prod.splits if_splits option.splits bool.splits)
qed

lemma Zstd_write_loop_result:
  "Zstd_write_loop E fuel c inp maxSize = Some (Inr (r, c')) \<Longrightarrow> r = - 1 \<or> r = maxSize"
proof (induction fuel arbitrary: c inp)
  case 0
  then show ?case by simp
next
  case (Suc fuel)
  then show ?case
    by (auto simp: Let_def split: prod.splits if_splits option.splits bool.splits)
qed

text \<open>
  So writes are all-or-nothing in the value they return: for every object, both backends
  and every \<open>maxSize \<ge> 1\<close>, a \<^verbatim>\<open>writeData\<close> call that returns and does not return
  \<open>- 1\<close> returns exactly \<open>maxSize\<close>.
\<close>

lemma writeData_returns_all_or_error:
  "1 \<le> maxSize \<Longrightarrow> QtIOCompressor_writeData E fuel c data maxSize = Some (Inr (r, c'))
     \<Longrightarrow> r = - 1 \<or> r = maxSize"
  by (auto simp: QtIOCompressor_writeData_def d_writeData_def Zlib_writeData_def Zstd_writeData_def
      split: if_splits Backend.splits dest: Zlib_write_loop_result Zstd_write_loop_result)

text \<open>
  What the loops have consumed when they return \<open>maxSize\<close>, for every codec that keeps
  the record. A codec call takes no more than it is offered, and \<open>writeBytes\<close> does not
  touch the streams.
\<close>

lemma call_deflate_records:
  assumes "records_input consumed E"
    and "call_deflate E (Some z) inp room flush = (status, used, out, zs)"
  shows "used \<le> length inp \<and> (\<exists>z'. zs = Some z' \<and> consumed z' = consumed z @ take used inp)"
proof -
  obtain s u ou z' where d: "deflate (zlib E) z inp room flush = (s, u, ou, z')"
    using prod_cases4 by blast
  from assms(1)
  have "case deflate (zlib E) z inp room flush of
          (status, used, out, z') \<Rightarrow> consumed z' = consumed z @ take used inp"
    by (simp add: records_input_def)
  with d have "consumed z' = consumed z @ take u inp" by simp
  with assms(2) d show ?thesis
    by (auto simp: call_deflate_def bounded_def min_def)
qed

lemma compressStream2_records:
  assumes "records_input consumed E"
    and "bounded inp room (ZSTD_compressStream2 (zstd E) cs inp room directive)
           = (status, used, out, cs')"
  shows "used \<le> length inp \<and> consumed cs' = consumed cs @ take used inp"
proof -
  obtain s u ou z' where d: "ZSTD_compressStream2 (zstd E) cs inp room directive = (s, u, ou, z')"
    using prod_cases4 by blast
  from assms(1)
  have "case ZSTD_compressStream2 (zstd E) cs inp room directive of
          (status, used, out, cs') \<Rightarrow> consumed cs' = consumed cs @ take used inp"
    by (simp add: records_input_def)
  with d have "consumed z' = consumed cs @ take u inp" by simp
  with assms(2) d show ?thesis
    by (auto simp: bounded_def min_def)
qed

lemma writeBytes_codec:
  "writeBytes E fuel bs c = Some (b, c') \<Longrightarrow>
     zlibStream c' = zlibStream c \<and> avail_in c' = avail_in c \<and> zstdCStream c' = zstdCStream c"
  by (auto simp: writeBytes_def setErrorString_def split: option.splits bool.splits prod.splits)

lemma logged_records_input: "records_input snd (logged E)"
  by (simp add: records_input_def logged_def split: prod.splits)

text \<open>
  The zstd loop runs until its input buffer is used up: a write that returns \<open>maxSize\<close>
  has consumed all the \<^verbatim>\<open>size_t\<close> \<open>maxSize\<close> bytes of the caller's data.
\<close>

lemma Zstd_write_loop_consumes:
  "records_input consumed E \<Longrightarrow> zstdCStream c = Some cs \<Longrightarrow>
   Zstd_write_loop E fuel c inp maxSize = Some (Inr (r, c')) \<Longrightarrow> r \<noteq> - 1 \<Longrightarrow>
     r = maxSize \<and> (\<exists>cs'. zstdCStream c' = Some cs' \<and> consumed cs' = consumed cs @ inp)"
proof (induction fuel arbitrary: c inp cs)
  case 0
  then show ?case by simp
next
  case (Suc fuel)
  obtain status used out cs1 where
    d: "bounded inp (bufferSize c)
          (ZSTD_compressStream2 (zstd E) cs inp (bufferSize c) ZSTD_e_continue) = (status, used, out, cs1)"
    using prod_cases4 by blast
  from compressStream2_records [OF Suc.prems(1) d]
  have used: "used \<le> length inp" and log: "consumed cs1 = consumed cs @ take used inp"
    by simp_all
  define c1 where "c1 = c\<lparr>zstdCStream := Some cs1, buffer := store out (buffer c)\<rparr>"
  from Suc.prems(2,3,4) d have ok: "\<not> ZSTD_isError (zstd E) status"
    by (auto simp: Let_def split: if_splits)
  from Suc.prems(2,3,4) d ok obtain c2 where
    wb: "writeBytes E fuel out c1 = Some (True, c2)"
    by (auto simp: Let_def c1_def split: if_splits option.splits bool.splits)
  from writeBytes_codec [OF wb] have z2: "zstdCStream c2 = Some cs1"
    by (simp add: c1_def)
  show ?case
  proof (cases "drop used inp = []")
    case False
    with Suc.prems(2,3) d ok wb
    have rec: "Zstd_write_loop E fuel c2 (drop used inp) maxSize = Some (Inr (r, c'))"
      by (simp add: Let_def c1_def)
    from Suc.IH [OF Suc.prems(1) z2 rec Suc.prems(4)]
    obtain cs' where r: "r = maxSize" and z': "zstdCStream c' = Some cs'"
      and l: "consumed cs' = consumed cs1 @ drop used inp"
      by blast
    from l log have "consumed cs' = consumed cs @ inp" by simp
    with r z' show ?thesis by blast
  next
    case True
    with Suc.prems(2,3,4) d ok wb
    have res: "r = maxSize" "c' = c2\<lparr>state := BytesWritten\<rparr>"
      by (auto simp: Let_def c1_def split: if_splits)
    from True have "take used inp = inp" by simp
    with res z2 log show ?thesis by simp
  qed
qed

lemma zstd_write_consumes_all:
  "records_input consumed E \<Longrightarrow> WITH_XC_ZSTD E \<Longrightarrow> backend c = ZstdPrivate \<Longrightarrow>
   zstdCStream c = Some cs \<Longrightarrow> 1 \<le> maxSize \<Longrightarrow>
   QtIOCompressor_writeData E fuel c data maxSize = Some (Inr (r, c')) \<Longrightarrow> r \<noteq> - 1 \<Longrightarrow>
     r = maxSize
     \<and> (\<exists>cs'. zstdCStream c' = Some cs' \<and> consumed cs' = consumed cs @ take (size_t maxSize) data)"
  using Zstd_write_loop_consumes [of consumed E c cs fuel "take (size_t maxSize) data" maxSize r c']
  by (auto simp: QtIOCompressor_writeData_def d_writeData_def Zstd_writeData_def split: if_splits)

text \<open>
  The zlib loop runs while the codec fills the scratch buffer, on the \<^verbatim>\<open>avail_in\<close> bytes
  that the stream holds.
\<close>

lemma Zlib_write_loop_consumes:
  "records_input consumed E \<Longrightarrow> zlibStream c = Some z \<Longrightarrow>
   Zlib_write_loop E fuel c inp maxSize = Some (Inr (r, c')) \<Longrightarrow> r \<noteq> - 1 \<Longrightarrow>
     r = maxSize \<and> avail_in c' \<le> length inp
     \<and> (\<exists>z'. zlibStream c' = Some z' \<and> consumed z' = consumed z @ take (length inp - avail_in c') inp)
     \<and> (\<not> QT_NO_DEBUG E \<longrightarrow> avail_in c' = 0)"
proof (induction fuel arbitrary: c inp z)
  case 0
  then show ?case by simp
next
  case (Suc fuel)
  obtain status used out zs where
    d: "call_deflate E (zlibStream c) inp (uInt (int (bufferSize c))) Z_NO_FLUSH = (status, used, out, zs)"
    using prod_cases4 by blast
  from call_deflate_records [OF Suc.prems(1)] d Suc.prems(2)
  obtain z1 where used: "used \<le> length inp" and zs: "zs = Some z1"
    and log: "consumed z1 = consumed z @ take used inp"
    by fastforce
  define c1 where "c1 = c\<lparr>zlibStream := zs, avail_in := length inp - used, buffer := store out (buffer c)\<rparr>"
  from Suc.prems(3,4) d have ok: "status = Z_OK"
    by (auto simp: Let_def split: if_splits)
  from Suc.prems(3,4) d ok obtain c2 where
    wb: "writeBytes E fuel out c1 = Some (True, c2)"
    by (auto simp: Let_def c1_def split: if_splits option.splits bool.splits)
  from writeBytes_codec [OF wb] have z2: "zlibStream c2 = Some z1" and a2: "avail_in c2 = length inp - used"
    by (simp_all add: c1_def zs)
  show ?case
  proof (cases "uInt (int (bufferSize c)) - length out = 0")
    case True
    with Suc.prems(3) d ok wb
    have rec: "Zlib_write_loop E fuel c2 (drop used inp) maxSize = Some (Inr (r, c'))"
      by (simp add: Let_def c1_def)
    from Suc.IH [OF Suc.prems(1) z2 rec Suc.prems(4)]
    obtain z' where r: "r = maxSize" and a: "avail_in c' \<le> length (drop used inp)"
      and z': "zlibStream c' = Some z'"
      and l: "consumed z' = consumed z1 @ take (length (drop used inp) - avail_in c') (drop used inp)"
      and dbg: "\<not> QT_NO_DEBUG E \<longrightarrow> avail_in c' = 0"
      by blast
    from a used have le: "avail_in c' \<le> length inp" by simp
    from a used have split: "length inp - avail_in c' = used + (length inp - used - avail_in c')"
      by simp
    have "take (length inp - avail_in c') inp
        = take used inp @ take (length inp - used - avail_in c') (drop used inp)"
      unfolding split by (simp add: take_add)
    with l log have "consumed z' = consumed z @ take (length inp - avail_in c') inp"
      by simp
    with r le z' dbg show ?thesis by blast
  next
    case False
    with Suc.prems(3,4) d ok wb
    have res: "r = maxSize" "c' = c2" and dbg: "\<not> QT_NO_DEBUG E \<longrightarrow> avail_in c2 = 0"
      by (auto simp: Let_def c1_def split: if_splits)
    from used have "length inp - (length inp - used) = used" by simp
    with res z2 a2 log dbg show ?thesis by simp
  qed
qed

text \<open>
  Claim C10 (writes are all-or-nothing). The value returned is all-or-nothing, but the
  zlib backend does not consume all input before it returns it. For every codec that
  keeps the record, every device and every \<open>maxSize \<ge> 1\<close>: a zlib \<^verbatim>\<open>writeData\<close> that does
  not return \<open>- 1\<close> returns \<open>maxSize\<close>, and has consumed a prefix of the caller's data of
  at most \<^verbatim>\<open>uInt\<close> \<open>maxSize\<close> \<open>= maxSize mod 2^32\<close> bytes; with assertions compiled in, exactly
  that prefix. When the caller's data has \<open>maxSize \<ge> 2^32\<close> bytes, the write has not
  consumed all of it: a write of \<open>2^32 + 1\<close> bytes returns \<open>2^32 + 1\<close> and has consumed one
  byte.
\<close>

theorem zlib_write_reports_more_than_it_consumed:
  "records_input consumed E \<Longrightarrow> backend c = ZlibPrivate \<Longrightarrow> zlibStream c = Some z \<Longrightarrow>
   1 \<le> maxSize \<Longrightarrow> QtIOCompressor_writeData E fuel c data maxSize = Some (Inr (r, c')) \<Longrightarrow>
   r \<noteq> - 1 \<Longrightarrow>
     r = maxSize
     \<and> (\<exists>z'. zlibStream c' = Some z'
           \<and> (\<exists>n\<le>uInt maxSize. consumed z' = consumed z @ take n data)
           \<and> (\<not> QT_NO_DEBUG E \<longrightarrow> consumed z' = consumed z @ take (uInt maxSize) data)
           \<and> (4294967296 \<le> maxSize \<and> int (length data) = maxSize
                \<longrightarrow> consumed z' \<noteq> consumed z @ data))"
proof -
  assume rec: "records_input consumed E" and b: "backend c = ZlibPrivate"
    and z: "zlibStream c = Some z" and m: "1 \<le> maxSize"
    and w: "QtIOCompressor_writeData E fuel c data maxSize = Some (Inr (r, c'))" and r: "r \<noteq> - 1"
  define inp where "inp = take (uInt maxSize) data"
  from w m b r have loop:
    "Zlib_write_loop E fuel (c\<lparr>avail_in := uInt maxSize\<rparr>) inp maxSize = Some (Inr (r, c'))"
    by (auto simp: QtIOCompressor_writeData_def d_writeData_def Zlib_writeData_def inp_def
        split: if_splits)
  have z0: "zlibStream (c\<lparr>avail_in := uInt maxSize\<rparr>) = Some z" using z by simp
  from Zlib_write_loop_consumes [OF rec z0 loop r]
  obtain z' where res: "r = maxSize" and z': "zlibStream c' = Some z'"
    and l: "consumed z' = consumed z @ take (length inp - avail_in c') inp"
    and dbg: "\<not> QT_NO_DEBUG E \<longrightarrow> avail_in c' = 0"
    by blast
  have n: "length inp - avail_in c' \<le> uInt maxSize" by (simp add: inp_def)
  have "take k inp = take k data" if "k \<le> uInt maxSize" for k
    using that by (simp add: inp_def min_absorb1)
  from this [OF n] have t: "take (length inp - avail_in c') inp = take (length inp - avail_in c') data" .
  from l t have some: "consumed z' = consumed z @ take (length inp - avail_in c') data" by simp
  have all: "\<not> QT_NO_DEBUG E \<longrightarrow> consumed z' = consumed z @ take (uInt maxSize) data"
  proof
    assume "\<not> QT_NO_DEBUG E"
    with dbg have "avail_in c' = 0" by simp
    with l have "consumed z' = consumed z @ inp" by simp
    then show "consumed z' = consumed z @ take (uInt maxSize) data" by (simp only: inp_def)
  qed
  have less: "consumed z' \<noteq> consumed z @ data"
    if big: "4294967296 \<le> maxSize \<and> int (length data) = maxSize"
  proof
    assume "consumed z' = consumed z @ data"
    with some have "take (length inp - avail_in c') data = data" by simp
    then have "length data \<le> length inp - avail_in c'"
      by (metis length_take min.cobounded2)
    with n have "length data \<le> uInt maxSize" by simp
    moreover have "uInt maxSize < 4294967296" by (simp add: uInt_def)
    ultimately show False using big by simp
  qed
  from res z' n some all less show ?thesis by blast
qed

lemma logged_gzip_session:
  "logged_session ZlibPrivate =
     \<lparr>openMode = 2, errorString = [], backend = ZlibPrivate,
      device = \<lparr>mb_mode = 2, mb_unread = [], mb_written = []\<rparr>,
      manageDevice = True, state = NoBytesWritten, bufferSize = 8,
      buffer = [9, 9, 9, 9, 9, 9, 9, 9], compressionLevel = 6,
      streamFormat = GzipFormat, zlibStream = Some (0, []), next_in = 0,
      avail_in = 0, zstdCStream = None, zstdDStream = None,
      zstdIn_size = 0, zstdIn_pos = 0\<rparr>"
  by (simp add: logged_session_def logged_def stand_in_defs object_defs open_defs replicate_numeral_unfold)

lemma logged_zstd_session:
  "logged_session ZstdPrivate =
     \<lparr>openMode = 2, errorString = [], backend = ZstdPrivate,
      device = \<lparr>mb_mode = 2, mb_unread = [], mb_written = []\<rparr>,
      manageDevice = True, state = Closed, bufferSize = 8,
      buffer = [9, 9, 9, 9, 9, 9, 9, 9], compressionLevel = 3,
      streamFormat = ZlibFormat, zlibStream = None, next_in = 0,
      avail_in = 0, zstdCStream = Some (0, []), zstdDStream = None,
      zstdIn_size = 0, zstdIn_pos = 0\<rparr>"
  by (simp add: logged_session_def logged_def stand_in_defs object_defs open_defs replicate_numeral_unfold)

lemma logged_write_4GiB_and_one:
  "QtIOCompressor_writeData (logged demo) (Suc (Suc 0)) (logged_session ZlibPrivate)
       (1 # replicate 4294967296 7) 4294967297
     = Some (Inr (4294967297, (logged_session ZlibPrivate)
          \<lparr>device := \<lparr>mb_mode = 2, mb_unread = [], mb_written = [1]\<rparr>,
           state := BytesWritten, buffer := [1, 9, 9, 9, 9, 9, 9, 9],
           zlibStream := Some (0, [1])\<rparr>))"
  by (simp add: logged_gzip_session logged_def write_defs stand_in_defs object_defs)

lemma logged_zstd_write_123:
  "QtIOCompressor_writeData (logged demo) (Suc (Suc 0)) (logged_session ZstdPrivate) [1, 2, 3] 3
     = Some (Inr (3, (logged_session ZstdPrivate)
          \<lparr>device := \<lparr>mb_mode = 2, mb_unread = [], mb_written = [1, 2, 3]\<rparr>,
           state := BytesWritten, buffer := [1, 2, 3, 9, 9, 9, 9, 9],
           zstdCStream := Some (0, [1, 2, 3])\<rparr>))"
  by (simp add: logged_zstd_session logged_def write_defs stand_in_defs object_defs)

theorem zlib_write_reports_more_than_it_consumed_witness:
  "records_input snd (logged demo)
   \<and> backend (logged_session ZlibPrivate) = ZlibPrivate
   \<and> zlibStream (logged_session ZlibPrivate) = Some (0, [])
   \<and> (1 :: int) \<le> 4294967297
   \<and> QtIOCompressor_writeData (logged demo) (Suc (Suc 0)) (logged_session ZlibPrivate)
         (1 # replicate 4294967296 7) 4294967297
       = Some (Inr (4294967297, (logged_session ZlibPrivate)
            \<lparr>device := \<lparr>mb_mode = 2, mb_unread = [], mb_written = [1]\<rparr>,
             state := BytesWritten, buffer := [1, 9, 9, 9, 9, 9, 9, 9],
             zlibStream := Some (0, [1])\<rparr>))
   \<and> (4294967297 :: int) \<noteq> - 1
   \<and> uInt 4294967297 = 1
   \<and> int (length (1 # replicate 4294967296 (7 :: byte))) = 4294967297
   \<and> (\<exists>n\<le>uInt 4294967297.
         snd (0 :: nat, [1 :: byte]) = snd (0 :: nat, [] :: byte list) @ take n (1 # replicate 4294967296 7))
   \<and> snd (0 :: nat, [1 :: byte]) \<noteq> snd (0 :: nat, [] :: byte list) @ 1 # replicate 4294967296 7"
proof -
  have b: "backend (logged_session ZlibPrivate) = ZlibPrivate"
    by (simp add: logged_gzip_session)
  have z: "zlibStream (logged_session ZlibPrivate) = Some (0, [])"
    by (simp add: logged_gzip_session)
  have m: "(1 :: int) \<le> 4294967297" by simp
  have r: "(4294967297 :: int) \<noteq> - 1" by simp
  have u: "uInt 4294967297 = 1" by (simp add: uInt_def)
  have l: "int (length (1 # replicate 4294967296 (7 :: byte))) = 4294967297" by simp
  have short: "snd (0 :: nat, [1 :: byte]) \<noteq> snd (0 :: nat, [] :: byte list) @ 1 # replicate 4294967296 7"
    by simp
  from zlib_write_reports_more_than_it_consumed
    [OF logged_records_input b z m logged_write_4GiB_and_one r]
  have some: "\<exists>n\<le>uInt 4294967297.
         snd (0 :: nat, [1 :: byte]) = snd (0 :: nat, [] :: byte list) @ take n (1 # replicate 4294967296 7)"
    by simp
  from logged_records_input b z m logged_write_4GiB_and_one r u l some short
  show ?thesis by blast
qed

section \<open>A build without zstd\<close>











section \<open>The read loops\<close>

text \<open>
  The zlib backend does what claim C3 says: when \<^verbatim>\<open>inflate\<close> reports
  \<^verbatim>\<open>Z_NEED_DICT\<close>, \<^verbatim>\<open>Z_DATA_ERROR\<close> or \<^verbatim>\<open>Z_MEM_ERROR\<close>, in whatever round of the
  loop, \<^verbatim>\<open>readData\<close> returns \<open>- 1\<close> at once with the state \<open>Error\<close>.
\<close>

lemma Zlib_decode_error_sets_Error:
  "Zlib_refill E c = Inr c1 \<Longrightarrow>
   call_inflate E (zlibStream c1) (take (avail_in c1) (drop (next_in c1) (buffer c1))) avail_out
       Z_SYNC_FLUSH = (status, used, out, z') \<Longrightarrow>
   status = Z_NEED_DICT \<or> status = Z_DATA_ERROR \<or> status = Z_MEM_ERROR \<Longrightarrow>
     \<exists>c'. Zlib_read_loop E (Suc fuel) c data avail_out maxSize = Some (Inr (- 1, data @ out, c'))
        \<and> state c' = Error"
  by (auto simp: Let_def setZlibError_def setErrorString_def split: option.splits)

lemma Zstd_refill_state:
  "Zstd_refill E c = Inr c1 \<Longrightarrow> state c1 = state c \<or> state c1 = InStream"
  by (auto simp: Zstd_refill_def Let_def split: if_splits prod.splits option.splits)

text \<open>
  Claim C3 (fatal decode errors set Error). The zstd backend does not: in whatever round
  of its loop \<^verbatim>\<open>ZSTD_decompressStream\<close> reports an error code, \<^verbatim>\<open>readData\<close> returns
  \<open>- 1\<close> at once, but the lifecycle state is the one it had before the codec call
  (\<open>InStream\<close>), never \<open>Error\<close>: the assignment \<^verbatim>\<open>state = Error\<close>, present in the zlib
  backend and in the zstd write path, is missing on this path.
\<close>

theorem zstd_decode_error_leaves_state:
  "Zstd_refill E c = Inr c1 \<Longrightarrow> zstdDStream c1 = Some ds \<Longrightarrow>
   ZSTD_decompressStream (zstd E) ds
       (take (zstdIn_size c1 - zstdIn_pos c1) (drop (zstdIn_pos c1) (buffer c1))) room
     = (status, used, out, ds') \<Longrightarrow>
   status \<noteq> 0 \<Longrightarrow> ZSTD_isError (zstd E) status \<Longrightarrow> state c \<noteq> Error \<Longrightarrow>
     \<exists>c'. Zstd_read_loop E (Suc fuel) c data room = Some (Inr (- 1, data @ take room out, c'))
        \<and> state c' = state c1 \<and> state c' \<noteq> Error"
  using Zstd_refill_state [of E c c1]
  by (auto simp: Let_def bounded_def setZstdError_def setErrorString_def split: option.splits)

theorem zstd_decode_error_leaves_state_witness:
  "state (zstd_session ReadOnly [1, 2, 255, 0, 7, 0] 8) \<noteq> Error
   \<and> (\<exists>c'. Zstd_read_loop demo (Suc 0) (zstd_session ReadOnly [1, 2, 255, 0, 7, 0] 8) [] 16
              = Some (Inr (- 1, [1, 2], c'))
            \<and> state c' = InStream \<and> state c' \<noteq> Error)"
proof -
  let ?c = "zstd_session ReadOnly [1, 2, 255, 0, 7, 0] 8"
  let ?c1 = "(zstd_session ReadOnly [] 8)
       \<lparr>device := \<lparr>mb_mode = ReadOnly, mb_unread = [], mb_written = []\<rparr>,
        buffer := [1, 2, 255, 0, 7, 0, 9, 9], zstdIn_size := 6, state := InStream\<rparr>"
  have fill: "Zstd_refill demo ?c = Inr ?c1"
    by (simp add: zstd_session_device zstd_read_session read_defs stand_in_defs object_defs)
  have ds: "zstdDStream ?c1 = Some 0"
    by (simp add: zstd_read_session)
  have dec: "ZSTD_decompressStream (zstd demo) 0
       (take (zstdIn_size ?c1 - zstdIn_pos ?c1) (drop (zstdIn_pos ?c1) (buffer ?c1))) 16
     = (18446744073709551596, 2, [1, 2], 0)"
    by (simp add: zstd_read_session stand_in_defs)
  have err: "ZSTD_isError (zstd demo) 18446744073709551596"
    by (simp add: stand_in_defs)
  have ok: "state ?c \<noteq> Error"
    by (simp add: zstd_session_device zstd_read_session)
  have s1: "state ?c1 = InStream"
    by simp
  from zstd_decode_error_leaves_state [OF fill ds dec _ err ok, of 0 "[]"] ok s1
  show ?thesis by simp
qed

text \<open>
  The zlib backend does what claim C4 says: in the middle of a stream, with no input left
  and a device that delivers nothing, \<^verbatim>\<open>inflate\<close> answers \<^verbatim>\<open>Z_BUF_ERROR\<close> and
  \<^verbatim>\<open>readData\<close> returns 0 with the state unchanged.
\<close>

lemma Zlib_benign_exhaustion:
  "state c = InStream \<Longrightarrow> avail_in c = 0 \<Longrightarrow>
   dev_read (dev E) (bufferSize c) (device c) = (Some [], d') \<Longrightarrow>
   call_inflate E (zlibStream c) [] avail_out Z_SYNC_FLUSH = (Z_BUF_ERROR, used, out, z') \<Longrightarrow>
     \<exists>c'. Zlib_read_loop E (Suc fuel) c data avail_out maxSize = Some (Inr (0, data @ out, c'))
        \<and> state c' = state c"
  by (simp add: Zlib_refill_def Let_def)

text \<open>One round of the zstd read loop, once the refill and the codec call are known.\<close>

lemma bounded_fits:
  "bounded inp room r = (status, used, out, z) \<Longrightarrow> length out \<le> room \<and> used \<le> length inp"
  by (auto simp: bounded_def split: prod.splits)

lemma Zstd_read_loop_round:
  "Zstd_refill E c = Inr c1 \<Longrightarrow> zstdDStream c1 = Some ds \<Longrightarrow>
   bounded (take (zstdIn_size c1 - zstdIn_pos c1) (drop (zstdIn_pos c1) (buffer c1))) room
     (ZSTD_decompressStream (zstd E) ds
        (take (zstdIn_size c1 - zstdIn_pos c1) (drop (zstdIn_pos c1) (buffer c1))) room)
     = (status, used, out, ds') \<Longrightarrow>
   c2 = c1\<lparr>zstdDStream := Some ds', zstdIn_pos := zstdIn_pos c1 + used\<rparr> \<Longrightarrow>
   Zstd_read_loop E (Suc fuel) c data room =
     (if status = 0 then
        (case unget_at (dev E) (buffer c2) (Zstd_unget_indices c2) (device c2) of
           Inl f \<Rightarrow> Some (Inl f)
         | Inr d' \<Rightarrow>
             Some (Inr (int (length (data @ out)), data @ out,
                        c2\<lparr>state := EndOfStream, device := d',
                            zstdIn_size := min (zstdIn_size c2) (zstdIn_pos c2)\<rparr>)))
      else if ZSTD_isError (zstd E) status then
        Some (Inr (- 1, data @ out,
                   setZstdError E ''Internal zstd error when decompressing: '' status c2))
      else if room - length out > 0 then Zstd_read_loop E fuel c2 (data @ out) (room - length out)
      else Some (Inr (int (length (data @ out)), data @ out, c2)))"
  by (clarsimp simp: Let_def)

lemma Zstd_refill_InStream:
  "state c = InStream \<Longrightarrow> Zstd_refill E c = Inr c1 \<Longrightarrow> state c1 = InStream"
  by (auto simp: Zstd_refill_def Let_def split: if_splits prod.splits option.splits)

lemma Zstd_refill_InStream_return:
  "state c = InStream \<Longrightarrow> Zstd_refill E c = Inl (r, c1) \<Longrightarrow> r = - 1"
  by (auto simp: Zstd_refill_def Let_def split: if_splits prod.splits option.splits)

lemma Zstd_read_loop_zero:
  "state c = InStream \<Longrightarrow> 0 < length data + room \<Longrightarrow>
   Zstd_read_loop E fuel c data room = Some (Inr (0, out, c')) \<Longrightarrow> state c' = EndOfStream"
proof (induction fuel arbitrary: c data room)
  case 0
  then show ?case by simp
next
  case (Suc fuel)
  show ?case
  proof (cases "Zstd_refill E c")
    case (Inl a)
    obtain r c1 where a: "a = (r, c1)" by (cases a)
    with Inl Suc.prems(1) have "r = - 1" by (auto dest: Zstd_refill_InStream_return)
    with Inl a Suc.prems(3) show ?thesis by simp
  next
    case (Inr c1)
    from Suc.prems(1) Inr have s1: "state c1 = InStream" by (rule Zstd_refill_InStream)
    show ?thesis
    proof (cases "zstdDStream c1")
      case None
      with Inr Suc.prems(3) show ?thesis by simp
    next
      case (Some ds)
      obtain status used out1 ds' where
        b: "bounded (take (zstdIn_size c1 - zstdIn_pos c1) (drop (zstdIn_pos c1) (buffer c1))) room
              (ZSTD_decompressStream (zstd E) ds
                (take (zstdIn_size c1 - zstdIn_pos c1) (drop (zstdIn_pos c1) (buffer c1))) room)
            = (status, used, out1, ds')"
        using prod_cases4 by blast
      define c2 where "c2 = c1\<lparr>zstdDStream := Some ds', zstdIn_pos := zstdIn_pos c1 + used\<rparr>"
      note round = Zstd_read_loop_round [OF Inr Some b c2_def, of fuel data]
      from Suc.prems(3) have eq:
        "(if status = 0 then
            (case unget_at (dev E) (buffer c2) (Zstd_unget_indices c2) (device c2) of
               Inl f \<Rightarrow> Some (Inl f)
             | Inr d' \<Rightarrow>
                 Some (Inr (int (length (data @ out1)), data @ out1,
                            c2\<lparr>state := EndOfStream, device := d',
                                zstdIn_size := min (zstdIn_size c2) (zstdIn_pos c2)\<rparr>)))
          else if ZSTD_isError (zstd E) status then
            Some (Inr (- 1, data @ out1,
                       setZstdError E ''Internal zstd error when decompressing: '' status c2))
          else if room - length out1 > 0 then Zstd_read_loop E fuel c2 (data @ out1) (room - length out1)
          else Some (Inr (int (length (data @ out1)), data @ out1, c2)))
         = Some (Inr (0, out, c'))"
        unfolding round .
      from bounded_fits [OF b] have fits: "length out1 \<le> room" by simp
      have s2: "state c2 = InStream" using s1 by (simp add: c2_def)
      show ?thesis
      proof (cases "status = 0")
        case True
        with eq show ?thesis
          by (auto split: sum.splits)
      next
        case False
        note running = this
        show ?thesis
        proof (cases "ZSTD_isError (zstd E) status")
          case True
          with running eq show ?thesis by simp
        next
          case False
          show ?thesis
          proof (cases "room - length out1 > 0")
            case True
            with running False eq
            have "Zstd_read_loop E fuel c2 (data @ out1) (room - length out1) = Some (Inr (0, out, c'))"
              by simp
            moreover from True have "0 < length (data @ out1) + (room - length out1)" by simp
            ultimately show ?thesis by (rule Suc.IH [OF s2, rotated])
          next
            case full: False
            with running False eq have "int (length data) + int (length out1) = 0" by simp
            then have "length data = 0 \<and> length out1 = 0" by linarith
            with full Suc.prems(2) show ?thesis by simp
          qed
        qed
      qed
    qed
  qed
qed

text \<open>
  Claim C4 (benign exhaustion). The zstd backend has no exit for it. For every codec and
  device: a zstd \<^verbatim>\<open>readData\<close> that starts in the middle of a stream (\<open>InStream\<close>) with room
  for at least one byte and returns 0 has seen the end of the frame, and the state is
  \<open>EndOfStream\<close> afterwards. So when the codec only wants more input and the device has
  none, the call does not return 0 with the state unchanged: the loop reads the device
  and calls the codec again and again (\<open>Zstd_read_loop_spins\<close>: with a codec that keeps
  asking, no amount of fuel makes it return), until the codec itself reports an error
  (\<open>zstd_starving_read_gives_up\<close>: \<open>- 1\<close> after 16 rounds).
\<close>

theorem zstd_read_never_returns_zero_for_exhaustion:
  "WITH_XC_ZSTD E \<Longrightarrow> backend c = ZstdPrivate \<Longrightarrow> state c = InStream \<Longrightarrow> 0 < size_t maxSize
     \<Longrightarrow> QtIOCompressor_readData E fuel c maxSize = Some (Inr (0, out, c'))
     \<Longrightarrow> state c' = EndOfStream"
  using Zstd_read_loop_zero [of c "[]" "size_t maxSize" E fuel out c']
  by (simp add: QtIOCompressor_readData_def d_readData_def Zstd_readData_def)

lemma zstd_reads_eight:
  "QtIOCompressor_readData demo (Suc 0) (zstd_session ReadOnly [1, 2, 3, 4, 5, 6, 7, 8, 0] 8) 8
     = Some (Inr (8, [1, 2, 3, 4, 5, 6, 7, 8], mid_stream_session))"
  by (simp add: mid_stream_session_def zstd_session_device zstd_read_session read_defs
      stand_in_defs object_defs)

lemma zstd_reads_end:
  "QtIOCompressor_readData demo (Suc 0) mid_stream_session 4
     = Some (Inr (0, [], mid_stream_session
         \<lparr>device := \<lparr>mb_mode = ReadOnly, mb_unread = [], mb_written = []\<rparr>,
          state := EndOfStream, buffer := [0, 2, 3, 4, 5, 6, 7, 8], zstdIn_size := 1, zstdIn_pos := 1\<rparr>))"
  by (simp add: mid_stream_session_def zstd_read_session read_defs stand_in_defs object_defs)

theorem zstd_read_never_returns_zero_for_exhaustion_witness:
  "WITH_XC_ZSTD demo \<and> backend mid_stream_session = ZstdPrivate
   \<and> state mid_stream_session = InStream \<and> 0 < size_t 4
   \<and> QtIOCompressor_readData demo (Suc 0) mid_stream_session 4
     = Some (Inr (0, [], mid_stream_session
         \<lparr>device := \<lparr>mb_mode = ReadOnly, mb_unread = [], mb_written = []\<rparr>,
          state := EndOfStream, buffer := [0, 2, 3, 4, 5, 6, 7, 8], zstdIn_size := 1, zstdIn_pos := 1\<rparr>))
   \<and> state (mid_stream_session
         \<lparr>device := \<lparr>mb_mode = ReadOnly, mb_unread = [], mb_written = []\<rparr>,
          state := EndOfStream, buffer := [0, 2, 3, 4, 5, 6, 7, 8], zstdIn_size := 1, zstdIn_pos := 1\<rparr>)
       = EndOfStream"
proof -
  have w: "WITH_XC_ZSTD demo" by (simp add: stand_in_defs)
  have b: "backend mid_stream_session = ZstdPrivate"
    by (simp add: mid_stream_session_def zstd_read_session)
  have s: "state mid_stream_session = InStream"
    by (simp add: mid_stream_session_def)
  have m: "0 < size_t 4" by (simp add: size_t_def)
  from zstd_read_never_returns_zero_for_exhaustion [OF w b s m zstd_reads_end] w b s m zstd_reads_end
  show ?thesis by simp
qed

lemma Zstd_read_loop_spins:
  "state c = InStream \<Longrightarrow> zstdIn_size c \<le> zstdIn_pos c \<Longrightarrow> 0 < room \<Longrightarrow>
   dev_read (dev E) (bufferSize c) (device c) = (Some [], device c) \<Longrightarrow>
   zstdDStream c = Some ds \<Longrightarrow>
   ZSTD_decompressStream (zstd E) ds [] room = (hint, used, out, ds) \<Longrightarrow>
   hint \<noteq> 0 \<Longrightarrow> \<not> ZSTD_isError (zstd E) hint \<Longrightarrow> take room out = [] \<Longrightarrow>
     Zstd_read_loop E fuel c data room = None"
proof (induction fuel arbitrary: c data)
  case 0
  then show ?case by simp
next
  case (Suc fuel)
  define c1 where "c1 = c\<lparr>buffer := store [] (buffer c), zstdIn_pos := 0, zstdIn_size := 0\<rparr>"
  have fill: "Zstd_refill E c = Inr c1"
    using Suc.prems by (simp add: Zstd_refill_def c1_def Let_def)
  have ds: "zstdDStream c1 = Some ds" using Suc.prems by (simp add: c1_def)
  have b: "bounded (take (zstdIn_size c1 - zstdIn_pos c1) (drop (zstdIn_pos c1) (buffer c1))) room
              (ZSTD_decompressStream (zstd E) ds
                (take (zstdIn_size c1 - zstdIn_pos c1) (drop (zstdIn_pos c1) (buffer c1))) room)
            = (hint, 0, [], ds)"
    using Suc.prems by (simp add: c1_def bounded_def)
  define c2 where "c2 = c1\<lparr>zstdDStream := Some ds, zstdIn_pos := zstdIn_pos c1 + 0\<rparr>"
  from Zstd_read_loop_round [OF fill ds b c2_def, of fuel data] Suc.prems
  have step: "Zstd_read_loop E (Suc fuel) c data room = Zstd_read_loop E fuel c2 (data @ []) room"
    by simp
  have "Zstd_read_loop E fuel c2 (data @ []) room = None"
    using Suc.prems by (intro Suc.IH) (simp_all add: c2_def c1_def)
  with step show ?case by simp
qed

lemma zstd_reads_two_then_starves:
  "QtIOCompressor_readData demo (Suc 0) (zstd_session ReadOnly [1, 2] 8) 2
     = Some (Inr (2, [1, 2], starving_session ZstdPrivate))"
  by (simp add: starving_session_def zstd_session_device zstd_read_session read_defs stand_in_defs
      object_defs)

lemma gzip_reads_two_then_starves:
  "QtIOCompressor_readData demo (Suc 0) (gzip_session ReadOnly [1, 2] 8) 2
     = Some (Inr (2, [1, 2], starving_session ZlibPrivate))"
  by (simp add: starving_session_def gzip_session_device gzip_read_session read_defs stand_in_defs
      object_defs)

lemma zlib_starving_read_returns_zero:
  "QtIOCompressor_readData demo (Suc 0) (starving_session ZlibPrivate) 16
     = Some (Inr (0, [], (starving_session ZlibPrivate)\<lparr>next_in := 0\<rparr>))"
  by (simp add: starving_session_def gzip_read_session read_defs stand_in_defs object_defs)

lemma zstd_starving_read_spins:
  "QtIOCompressor_readData demo_patient fuel (starving_session ZstdPrivate) 16 = None"
proof -
  have "Zstd_read_loop demo_patient fuel (starving_session ZstdPrivate) [] 16 = None"
    by (rule Zstd_read_loop_spins [where ds = 0 and hint = 1 and used = 0 and out = "[]"])
      (simp_all add: starving_session_def zstd_read_session demo_patient_def
        patient_decompressStream_def stand_in_defs)
  then show ?thesis
    by (simp add: QtIOCompressor_readData_def d_readData_def Zstd_readData_def size_t_def
        starving_session_def zstd_read_session demo_patient_def stand_in_defs)
qed

lemma zstd_starving_read_gives_up:
  "QtIOCompressor_readData demo fuel16 (starving_session ZstdPrivate) 16
     = Some (Inr (- 1, [],
         (starving_session ZstdPrivate)
           \<lparr>errorString := ''Internal zstd error when decompressing: zstd error'',
            zstdDStream := Some 15, zstdIn_size := 0, zstdIn_pos := 0\<rparr>))"
  by (simp add: starving_session_def zstd_read_session read_defs stand_in_defs object_defs)

text \<open>
  Push-back at the end of a stream. The zlib loop makes \<open>avail_in + 1\<close> calls of
  \<^verbatim>\<open>ungetChar\<close>, the zstd loop \<open>size - pos\<close>. On the in-memory device the zstd loop
  puts back exactly the bytes the codec did not consume; the zlib loop puts back these
  bytes and behind them the byte of the scratch buffer that follows them, which was
  never part of the unconsumed input.
\<close>

lemma Zlib_unget_indices_length:
  "avail_in c < 2 ^ 31 \<Longrightarrow> length (Zlib_unget_indices c) = avail_in c + 1"
  by (simp add: Zlib_unget_indices_def to_int_def)

lemma Zstd_unget_indices_length:
  "length (Zstd_unget_indices c) = zstdIn_size c - zstdIn_pos c"
  by (simp add: Zstd_unget_indices_def)

lemma unget_at_MemDevice:
  "\<forall>i \<in> set idx. i < length buf \<Longrightarrow>
     unget_at MemDevice buf idx d = Inr (d\<lparr>mb_unread := rev (map ((!) buf) idx) @ mb_unread d\<rparr>)"
  by (induction idx arbitrary: d) (simp_all add: MemDevice_def)

lemma MemDevice_ungetChar: "dev_ungetChar MemDevice b d = d\<lparr>mb_unread := b # mb_unread d\<rparr>"
  by (simp add: MemDevice_def)

lemma slice_by_index:
  "i + n \<le> length xs \<Longrightarrow> map ((!) xs) [i..<i + n] = take n (drop i xs)"
  by (rule nth_equalityI) simp_all

lemma shifted_upt: "map ((+) p) [0..<n] = [p..<p + n]"
  by (rule nth_equalityI) simp_all

lemma Zstd_unget_exact:
  "zstdIn_size c \<le> length (buffer c) \<Longrightarrow>
     unget_at MemDevice (buffer c) (Zstd_unget_indices c) d =
       Inr (d\<lparr>mb_unread := take (zstdIn_size c - zstdIn_pos c) (drop (zstdIn_pos c) (buffer c))
                               @ mb_unread d\<rparr>)"
proof -
  assume le: "zstdIn_size c \<le> length (buffer c)"
  have "map ((!) (buffer c)) [zstdIn_pos c..<zstdIn_size c]
          = take (zstdIn_size c - zstdIn_pos c) (drop (zstdIn_pos c) (buffer c))"
  proof (cases "zstdIn_pos c \<le> zstdIn_size c")
    case True
    with le slice_by_index [of "zstdIn_pos c" "zstdIn_size c - zstdIn_pos c" "buffer c"]
    show ?thesis by simp
  next
    case False
    then show ?thesis by simp
  qed
  with le show ?thesis
    by (simp add: unget_at_MemDevice Zstd_unget_indices_def rev_map [symmetric])
qed

lemma Zlib_unget_one_more:
  "avail_in c < 2 ^ 31 \<Longrightarrow> next_in c + avail_in c < length (buffer c) \<Longrightarrow>
     unget_at MemDevice (buffer c) (Zlib_unget_indices c) d =
       Inr (d\<lparr>mb_unread := take (avail_in c) (drop (next_in c) (buffer c))
                               @ [buffer c ! (next_in c + avail_in c)] @ mb_unread d\<rparr>)"
proof -
  assume small: "avail_in c < 2 ^ 31" and inside: "next_in c + avail_in c < length (buffer c)"
  have idx: "Zlib_unget_indices c = rev [next_in c..<Suc (next_in c + avail_in c)]"
    using small shifted_upt [of "next_in c" "Suc (avail_in c)"]
    by (simp add: Zlib_unget_indices_def to_int_def rev_map [symmetric] del: upt_Suc)
  have "map ((!) (buffer c)) [next_in c..<next_in c + avail_in c]
          = take (avail_in c) (drop (next_in c) (buffer c))"
    using inside by (simp add: slice_by_index)
  with inside idx show ?thesis
    by (simp add: unget_at_MemDevice rev_map [symmetric] MemDevice_ungetChar)
qed

text \<open>
  Claim C2 (exact push-back at the end of a stream). It fails in the zlib backend. On a
  device that holds two streams back to back, \<open>[1, 2, 3, 0]\<close> and \<open>[7, 0]\<close>, reading the
  first one to its end leaves the device with \<open>[7, 0, 9]\<close> to read: the second stream
  and one byte more, the stale byte 9 of the scratch buffer. On a device that holds the
  first stream alone, the device is left with the byte \<open>[9]\<close> instead of nothing. When
  the last read filled the scratch buffer (size 6 here), the extra byte is read from
  behind the end of the buffer. The zstd backend, on the same device, leaves exactly
  \<open>[7, 0]\<close> (\<open>zstd_pushes_back_exactly\<close>).
\<close>

theorem zlib_pushes_back_one_byte_too_many:
  "QtIOCompressor_readData demo (Suc 0) (gzip_session ReadOnly [1, 2, 3, 0, 7, 0] 8) 16
     = Some (Inr (3, [1, 2, 3],
         (gzip_session ReadOnly [] 8)
           \<lparr>device := \<lparr>mb_mode = ReadOnly, mb_unread = [7, 0, 9], mb_written = []\<rparr>,
            state := EndOfStream, buffer := [1, 2, 3, 0, 7, 0, 9, 9], next_in := 4, avail_in := 2\<rparr>))
   \<and> QtIOCompressor_readData demo (Suc 0) (gzip_session ReadOnly [1, 2, 3, 0] 8) 16
     = Some (Inr (3, [1, 2, 3],
         (gzip_session ReadOnly [] 8)
           \<lparr>device := \<lparr>mb_mode = ReadOnly, mb_unread = [9], mb_written = []\<rparr>,
            state := EndOfStream, buffer := [1, 2, 3, 0, 9, 9, 9, 9], next_in := 4, avail_in := 0\<rparr>))
   \<and> QtIOCompressor_readData demo (Suc 0) (gzip_session ReadOnly [1, 2, 3, 0, 7, 0] 6) 16
     = Some (Inl OutOfBoundsRead)"
  by (simp add: gzip_read_session session_defs open_defs read_defs stand_in_defs object_defs
      replicate_numeral_unfold upt_numeral_unfold)

lemma zstd_pushes_back_exactly:
  "QtIOCompressor_readData demo (Suc 0) (zstd_session ReadOnly [1, 2, 3, 0, 7, 0] 8) 16
     = Some (Inr (3, [1, 2, 3],
         (zstd_session ReadOnly [] 8)
           \<lparr>device := \<lparr>mb_mode = ReadOnly, mb_unread = [7, 0], mb_written = []\<rparr>,
            state := EndOfStream, buffer := [1, 2, 3, 0, 7, 0, 9, 9],
            zstdIn_size := 4, zstdIn_pos := 4\<rparr>))"
  by (simp add: session_defs open_defs read_defs stand_in_defs object_defs
      replicate_numeral_unfold upt_numeral_unfold)

end
